theory Spec2Isabelle
  imports Main "HOL-Library.Word" "HOL-Library.AList" "HOL-Library.Sublist"
begin

section \<open>Shared conventions\<close>

text \<open>
  The two Go packages are embedded with explicit state passing.

  \<^item> \<open>int32\<close> is \<open>32 word\<close>, read as two's complement with \<open>sint\<close>. Go's \<open>int\<close> and
    \<open>int64\<close> are \<open>int\<close>; the one narrowing conversion of the program
    (\<open>int32(port)\<close> in \<open>StatRecvHandler\<close>) is written out with \<open>word_of_int\<close>.
  \<^item> A Go map is an association list with distinct keys in some iteration order; a map
    that may be \<open>nil\<close> is an \<open>option\<close> of one. Assigning into a \<open>nil\<close> map panics,
    \<open>delete\<close> on it and \<open>range\<close> over it do nothing.
  \<^item> A call either returns or panics; both carry the state reached.
\<close>

type_synonym int32 = "32 word"

type_synonym ('k, 'v) gomap = "('k \<times> 'v) list option"

datatype panic = NilDereference | NilMapAssignment | SliceBounds

datatype ('a, 's) outcome = Panic panic 's | Return 'a 's

definition map_entries :: "('k, 'v) gomap \<Rightarrow> ('k \<times> 'v) list" where
  "map_entries m = (case m of None \<Rightarrow> [] | Some al \<Rightarrow> al)"

definition map_delete :: "'k \<Rightarrow> ('k, 'v) gomap \<Rightarrow> ('k, 'v) gomap" where
  "map_delete k m = map_option (AList.delete k) m"

section \<open>Package manager: the remote slave proxy (src/manager/slave.go)\<close>

subsection \<open>ShadowsocksService and slaveMeta\<close>

record ShadowsocksService =
  UserId :: string
  srv_Port :: int32
  srv_Password :: string

record slaveMeta =
  openedPorts :: "(int32, ShadowsocksService) gomap"
  stats :: "(int32, int) gomap"

text \<open>
  \<open>addPorts\<close>: for each service, \<open>m.openedPorts[srv.Port] = srv\<close> and then
  \<open>m.stats[srv.Port] = 0\<close>. Either assignment panics on a \<open>nil\<close> map; the first one has
  already happened when the second one panics. The elements of \<open>srvs\<close> are the pointed-to
  services (no \<open>nil\<close> element).
\<close>

fun addPorts :: "slaveMeta \<Rightarrow> ShadowsocksService list \<Rightarrow> (unit, slaveMeta) outcome" where
  "addPorts m [] = Return () m"
| "addPorts m (srv # srvs) =
     (case openedPorts m of
        None \<Rightarrow> Panic NilMapAssignment m
      | Some ports \<Rightarrow>
          (let m1 = m\<lparr>openedPorts := Some (AList.update (srv_Port srv) srv ports)\<rparr> in
           case stats m1 of
             None \<Rightarrow> Panic NilMapAssignment m1
           | Some st \<Rightarrow> addPorts (m1\<lparr>stats := Some (AList.update (srv_Port srv) 0 st)\<rparr>) srvs))"

fun removePorts :: "slaveMeta \<Rightarrow> ShadowsocksService list \<Rightarrow> slaveMeta" where
  "removePorts m [] = m"
| "removePorts m (srv # srvs) =
     removePorts (m\<lparr>openedPorts := map_delete (srv_Port srv) (openedPorts m),
                     stats := map_delete (srv_Port srv) (stats m)\<rparr>) srvs"

text \<open>\<open>setStats\<close> ranges over the entries of its argument, itself a Go map.\<close>

fun setStats_loop :: "slaveMeta \<Rightarrow> (int32 \<times> int) list \<Rightarrow> (unit, slaveMeta) outcome" where
  "setStats_loop m [] = Return () m"
| "setStats_loop m ((port, traffic) # rest) =
     (case stats m of
        None \<Rightarrow> Panic NilMapAssignment m
      | Some st \<Rightarrow> setStats_loop (m\<lparr>stats := Some (AList.update port traffic st)\<rparr>) rest)"

definition setStats :: "slaveMeta \<Rightarrow> (int32, int) gomap \<Rightarrow> (unit, slaveMeta) outcome" where
  "setStats m traffics = setStats_loop m (map_entries traffics)"

definition meta_ListServices :: "slaveMeta \<Rightarrow> ShadowsocksService list" where
  "meta_ListServices m = map snd (map_entries (openedPorts m))"

definition meta_GetStats :: "slaveMeta \<Rightarrow> (int32, int) gomap" where
  "meta_GetStats m = stats m"

subsection \<open>The protocol side and the reconciliation helpers\<close>

text \<open>
  Modelled from the spec: the generated package \<open>protocol\<close> and the helpers
  \<open>constructProtocolServiceList\<close>, \<open>constructServiceList\<close>, \<open>compareLists\<close> and
  \<open>constructErrorFromDifferenceServiceList\<close> of package \<open>manager\<close> are called by
  slave.go and are not among the source files. The spec gives a service the three
  fields (userId, port, password) as the unit exchanged over RPC, and describes the
  reconciliation as: build the set of identity keys (userId + port) of each side;
  what is requested and not returned is missing, what is returned and not requested is
  unexpected; an empty difference is clean success, a non-empty one is a single
  aggregated error enumerating both categories.
\<close>

record protocol_Service =
  p_UserId :: string
  p_Port :: int32
  p_Password :: string

type_synonym ServiceList = "protocol_Service list"

definition constructProtocolServiceList :: "ShadowsocksService list \<Rightarrow> ServiceList" where
  "constructProtocolServiceList srvs =
     map (\<lambda>s. \<lparr>p_UserId = UserId s, p_Port = srv_Port s, p_Password = srv_Password s\<rparr>) srvs"

definition constructServiceList :: "ServiceList \<Rightarrow> ShadowsocksService list" where
  "constructServiceList l =
     map (\<lambda>p. \<lparr>UserId = p_UserId p, srv_Port = p_Port p, srv_Password = p_Password p\<rparr>) l"

definition identity_key :: "protocol_Service \<Rightarrow> string \<times> int32" where
  "identity_key p = (p_UserId p, p_Port p)"

definition keys_of :: "ServiceList \<Rightarrow> (string \<times> int32) set" where
  "keys_of l = set (map identity_key l)"

datatype difference = Missing protocol_Service | Unexpected protocol_Service

definition compareLists :: "ServiceList \<Rightarrow> ServiceList \<Rightarrow> difference list" where
  "compareLists requested returned =
     map Missing (filter (\<lambda>p. identity_key p \<notin> keys_of returned) requested) @
     map Unexpected (filter (\<lambda>p. identity_key p \<notin> keys_of requested) returned)"

fun difference_key :: "difference \<Rightarrow> string \<times> int32" where
  "difference_key (Missing p) = identity_key p"
| "difference_key (Unexpected p) = identity_key p"

datatype slave_error =
    RpcFailure string
  | DifferenceError "difference list"

definition constructErrorFromDifferenceServiceList :: "difference list \<Rightarrow> slave_error" where
  "constructErrorFromDifferenceServiceList diff = DifferenceError diff"

subsection \<open>The slave object\<close>

text \<open>
  \<open>conn\<close> is the \<open>*grpc.ClientConn\<close> (\<open>None\<close> is \<open>nil\<close>), named by a handle; \<open>stub\<close> is the
  client built over a connection (\<open>None\<close> is the \<open>nil\<close> interface). The context is
  derived from \<open>token\<close> and not stored apart.
\<close>

record slave =
  remoteURL :: string
  conn :: "nat option"
  stub :: "nat option"
  token :: string
  meta :: slaveMeta

definition NewSlave :: "string \<Rightarrow> string \<Rightarrow> slave" where
  "NewSlave url tok =
     \<lparr>remoteURL = url, conn = None, stub = None, token = tok,
      meta = \<lparr>openedPorts = Some [], stats = None\<rparr>\<rparr>"

definition isTokenValid :: "slave \<Rightarrow> bool" where
  "isTokenValid s = (length (token s) = 0)"

text \<open>
  What the network does is an input of each call: \<open>grpc.Dial\<close> yields an error or a
  connection handle, closing a connection yields its error or \<open>nil\<close>, and a remote call
  yields a transport error or the reply.
\<close>

datatype 'a rpc = RpcError string | RpcReply 'a

definition Dial :: "slave \<Rightarrow> string + nat \<Rightarrow> string option \<times> slave" where
  "Dial s dialed =
     (case dialed of
        Inl err \<Rightarrow> (Some err, s)
      | Inr c \<Rightarrow> (None, s\<lparr>conn := Some c, stub := Some c\<rparr>))"

text \<open>
  \<open>Close\<close> clears both fields and then calls \<open>conn.Close()\<close> on the saved pointer. The
  method of the gRPC library reads through its receiver at once, so on a \<open>nil\<close>
  pointer the call is a nil dereference.
\<close>

definition Close :: "slave \<Rightarrow> string option \<Rightarrow> (string option, slave) outcome" where
  "Close s closed =
     (let c = conn s; s' = s\<lparr>conn := None, stub := None\<rparr> in
      case c of
        None \<Rightarrow> Panic NilDereference s'
      | Some _ \<Rightarrow> Return closed s')"

type_synonym services_result = "ShadowsocksService list \<times> slave_error option"

definition Allocate ::
  "slave \<Rightarrow> ShadowsocksService list \<Rightarrow> ServiceList rpc \<Rightarrow> (services_result, slave) outcome" where
  "Allocate s srvs reply =
     (let serviceList = constructProtocolServiceList srvs in
      case stub s of
        None \<Rightarrow> Panic NilDereference s
      | Some _ \<Rightarrow>
          (case reply of
             RpcError err \<Rightarrow> Return ([], Some (RpcFailure err)) s
           | RpcReply resp \<Rightarrow>
               (let diff = compareLists serviceList resp;
                    allocatedList = constructServiceList resp in
                case addPorts (meta s) allocatedList of
                  Panic p m \<Rightarrow> Panic p (s\<lparr>meta := m\<rparr>)
                | Return _ m \<Rightarrow>
                    if length diff \<noteq> 0
                    then Return (allocatedList,
                                 Some (constructErrorFromDifferenceServiceList diff)) (s\<lparr>meta := m\<rparr>)
                    else Return (allocatedList, None) (s\<lparr>meta := m\<rparr>))))"

definition Free ::
  "slave \<Rightarrow> ShadowsocksService list \<Rightarrow> ServiceList rpc \<Rightarrow> (services_result, slave) outcome" where
  "Free s srvs reply =
     (let serviceList = constructProtocolServiceList srvs in
      case stub s of
        None \<Rightarrow> Panic NilDereference s
      | Some _ \<Rightarrow>
          (case reply of
             RpcError err \<Rightarrow> Return ([], Some (RpcFailure err)) s
           | RpcReply resp \<Rightarrow>
               (let diff = compareLists serviceList resp;
                    freedList = constructServiceList resp;
                    s' = s\<lparr>meta := removePorts (meta s) freedList\<rparr> in
                if length diff \<noteq> 0
                then Return (freedList, Some (constructErrorFromDifferenceServiceList diff)) s'
                else Return (freedList, None) s')))"

text \<open>
  \<open>ListServices\<close> compares the reply with the recorded services and only logs the
  difference (\<open>logrus.Warnln\<close>); the second component of the result is what was logged.
\<close>

definition ListServices ::
  "slave \<Rightarrow> ServiceList rpc \<Rightarrow> (services_result, slave) outcome \<times> slave_error list" where
  "ListServices s reply =
     (case stub s of
        None \<Rightarrow> (Panic NilDereference s, [])
      | Some _ \<Rightarrow>
          (case reply of
             RpcError err \<Rightarrow> (Return ([], Some (RpcFailure err)) s, [])
           | RpcReply resp \<Rightarrow>
               (let diff = compareLists
                             (constructProtocolServiceList (meta_ListServices (meta s))) resp in
                (Return (constructServiceList resp, None) s,
                 if length diff \<noteq> 0 then [constructErrorFromDifferenceServiceList diff] else []))))"

type_synonym stats_result = "(int32, int) gomap \<times> slave_error option"

definition GetStats :: "slave \<Rightarrow> (int32, int) gomap rpc \<Rightarrow> (stats_result, slave) outcome" where
  "GetStats s reply =
     (case stub s of
        None \<Rightarrow> Panic NilDereference s
      | Some _ \<Rightarrow>
          (case reply of
             RpcError err \<Rightarrow> Return (None, Some (RpcFailure err)) s
           | RpcReply traffics \<Rightarrow>
               (case setStats (meta s) traffics of
                  Panic p m \<Rightarrow> Panic p (s\<lparr>meta := m\<rparr>)
                | Return _ m \<Rightarrow> Return (traffics, None) (s\<lparr>meta := m\<rparr>))))"

definition SetStats ::
  "slave \<Rightarrow> (int32, int) gomap \<Rightarrow> unit rpc \<Rightarrow> (slave_error option, slave) outcome" where
  "SetStats s traffics reply =
     (case stub s of
        None \<Rightarrow> Panic NilDereference s
      | Some _ \<Rightarrow>
          (case reply of
             RpcError err \<Rightarrow> Return (Some (RpcFailure err)) s
           | RpcReply _ \<Rightarrow>
               (case setStats (meta s) traffics of
                  Panic p m \<Rightarrow> Panic p (s\<lparr>meta := m\<rparr>)
                | Return _ m \<Rightarrow> Return None (s\<lparr>meta := m\<rparr>))))"

definition Meta :: "slave \<Rightarrow> slaveMeta" where
  "Meta s = meta s"

section \<open>Package shadowsocks: the process supervisor (src/slave/shadowsocks/manager_ng.go)\<close>

subsection \<open>Library functions the supervisor calls\<close>

text \<open>
  \<open>fmt.Sprint\<close> of an integer, \<open>path.Join\<close> of two elements, \<open>bytes.TrimSpace\<close> and
  \<open>strconv.Atoi\<close> belong to the Go standard library; they are written out here as the
  library documents them. \<open>path.Join\<close> drops empty elements and cleans the result; the
  cleaning is the identity on the paths built here (a cleaned base, decimal port
  numbers and fixed file names) and is not modelled.
\<close>

fun string_of_nat :: "nat \<Rightarrow> string" where
  "string_of_nat n =
     (if n < 10 then [''0123456789'' ! n]
      else string_of_nat (n div 10) @ [''0123456789'' ! (n mod 10)])"

declare string_of_nat.simps [simp del]

definition Sprint :: "int \<Rightarrow> string" where
  "Sprint i = (if i < 0 then ''-'' @ string_of_nat (nat (- i)) else string_of_nat (nat i))"

definition path_Join :: "string \<Rightarrow> string \<Rightarrow> string" where
  "path_Join a b = (if a = [] then b else if b = [] then a else a @ ''/'' @ b)"

text \<open>
  \<open>unicode.IsSpace\<close> holds of six ASCII characters and of U+0085, U+00A0, U+1680,
  U+2000 to U+200A, U+2028, U+2029, U+202F, U+205F and U+3000; the list gives their
  UTF-8 encodings. Trimming removes encoded space runes from both ends.
\<close>

definition space_runes :: "string list" where
  "space_runes =
     [ [CHR 0x09], [CHR 0x0A], [CHR 0x0B], [CHR 0x0C], [CHR 0x0D], [CHR 0x20],
      [CHR 0xC2, CHR 0x85], [CHR 0xC2, CHR 0xA0], [CHR 0xE1, CHR 0x9A, CHR 0x80],
      [CHR 0xE2, CHR 0x80, CHR 0x80], [CHR 0xE2, CHR 0x80, CHR 0x81],
      [CHR 0xE2, CHR 0x80, CHR 0x82], [CHR 0xE2, CHR 0x80, CHR 0x83],
      [CHR 0xE2, CHR 0x80, CHR 0x84], [CHR 0xE2, CHR 0x80, CHR 0x85],
      [CHR 0xE2, CHR 0x80, CHR 0x86], [CHR 0xE2, CHR 0x80, CHR 0x87],
      [CHR 0xE2, CHR 0x80, CHR 0x88], [CHR 0xE2, CHR 0x80, CHR 0x89],
      [CHR 0xE2, CHR 0x80, CHR 0x8A], [CHR 0xE2, CHR 0x80, CHR 0xA8],
      [CHR 0xE2, CHR 0x80, CHR 0xA9], [CHR 0xE2, CHR 0x80, CHR 0xAF],
      [CHR 0xE2, CHR 0x81, CHR 0x9F], [CHR 0xE3, CHR 0x80, CHR 0x80] ]"

definition strip_one :: "string list \<Rightarrow> string \<Rightarrow> string option" where
  "strip_one runes s =
     (case find (\<lambda>r. r \<noteq> [] \<and> prefix r s) runes of
        None \<Rightarrow> None
      | Some r \<Rightarrow> Some (drop (length r) s))"

function trim_prefixes :: "string list \<Rightarrow> string \<Rightarrow> string" where
  "trim_prefixes runes s =
     (case strip_one runes s of None \<Rightarrow> s | Some s' \<Rightarrow> trim_prefixes runes s')"
  by pat_completeness auto
termination
proof (relation "measure (\<lambda>(runes, s). length s)")
  show "wf (measure (\<lambda>(runes, s). length s))"
    by simp
next
  fix runes :: "string list" and s s' :: string
  assume "strip_one runes s = Some s'"
  then obtain r where r: "find (\<lambda>r. r \<noteq> [] \<and> prefix r s) runes = Some r"
    and s': "s' = drop (length r) s"
    by (auto simp: strip_one_def split: option.splits)
  from r have "r \<noteq> []" and "prefix r s"
    by (auto simp: find_Some_iff)
  then have "length s' < length s"
    using s' by (cases r; cases s) (auto simp: prefix_def)
  then show "((runes, s'), (runes, s)) \<in> measure (\<lambda>(runes, s). length s)"
    by simp
qed

declare trim_prefixes.simps [simp del]

definition TrimSpace :: "string \<Rightarrow> string" where
  "TrimSpace s =
     rev (trim_prefixes (map rev space_runes) (rev (trim_prefixes space_runes s)))"

text \<open>
  \<open>strconv.Atoi\<close> with its error ignored, as the handler calls it: an optional sign and
  decimal digits give the number, clamped to the 64-bit range; anything else gives 0.
\<close>

definition is_digit :: "char \<Rightarrow> bool" where
  "is_digit c = (48 \<le> (of_char c :: nat) \<and> (of_char c :: nat) \<le> 57)"

fun parse_digits :: "nat \<Rightarrow> string \<Rightarrow> nat option" where
  "parse_digits acc [] = Some acc"
| "parse_digits acc (c # cs) =
     (if is_digit c then parse_digits (10 * acc + (of_char c - 48)) cs else None)"

definition Atoi :: "string \<Rightarrow> int" where
  "Atoi s =
     (let neg = (s \<noteq> [] \<and> hd s = CHR ''-'');
          ds = (if s \<noteq> [] \<and> (hd s = CHR ''-'' \<or> hd s = CHR ''+'') then tl s else s) in
      if ds = [] then 0
      else case parse_digits 0 ds of
             None \<Rightarrow> 0
           | Some n \<Rightarrow> if neg then max (- int n) (- (2 ^ 63)) else min (int n) (2 ^ 63 - 1))"

subsection \<open>Server, its options and its runtime\<close>

record serverOptions =
  MPTCP :: bool
  TCPFastOpen :: bool
  Auth :: bool
  NameServer :: string
  PidFile :: string
  ManagerAddress :: string
  Interface :: string
  FireWall :: bool
  Verbose :: bool

definition BuildArgs :: "serverOptions \<Rightarrow> string list" where
  "BuildArgs opt =
     (if MPTCP opt then [''--mptcp''] else []) @
     (if TCPFastOpen opt then [''--fast-open''] else []) @
     (if Auth opt then [''-A''] else []) @
     (if length (NameServer opt) \<noteq> 0 then [''-d'', NameServer opt] else []) @
     (if length (ManagerAddress opt) \<noteq> 0 then [''--manager-address'', ManagerAddress opt] else []) @
     (if FireWall opt then [''--firewall''] else []) @
     (if Verbose opt then [''-v''] else [])"

definition methods :: "string list" where
  "methods =
     [''table'', ''rc4'', ''rc4-md5'', ''aes-128-cfb'', ''aes-192-cfb'', ''aes-256-cfb'',
      ''aes-128-ctr'', ''aes-192-ctr'', ''aes-256-ctr'', ''bf-cfb'', ''camellia-128-cfb'',
      ''camellia-192-cfb'', ''camellia-256-cfb'', ''cast5-cfb'', ''des-cfb'', ''idea-cfb'',
      ''rc2-cfb'', ''seed-cfb'', ''salsa20'', ''chacha20'', ''chacha20-ietf'']"

definition ValidateEncryptMethod :: "string \<Rightarrow> bool" where
  "ValidateEncryptMethod m = list_ex (\<lambda>method. m = method) methods"

record Stat =
  Traffic :: int

text \<open>
  The \<open>runtime\<close> struct: \<open>cmd\<close> is a pointer to an \<open>exec.Cmd\<close> object (an index into the
  state's \<open>cmds\<close>), \<open>logw\<close> the open log file, named by its path; \<open>None\<close> is \<open>nil\<close>.
\<close>

record runtime =
  rt_path :: string
  rt_cmd :: "nat option"
  rt_logw :: "string option"
  rt_config :: string

text \<open>\<open>stat\<close> is the \<open>atomic.Value\<close>: \<open>None\<close> before the first \<open>Store\<close>.\<close>

record Server =
  Host :: string
  Port :: int32
  Password :: string
  Method :: string
  Timeout :: int
  stat :: "Stat option"
  options :: serverOptions
  runtime :: runtime

definition Valid :: "Server \<Rightarrow> bool" where
  "Valid s =
     (length (Host s) \<noteq> 0 \<and> sint (Port s) > 0 \<and> sint (Port s) < 65536 \<and>
      length (Password s) \<ge> 8 \<and> ValidateEncryptMethod (Method s) \<and> Timeout s > 0)"

definition opts :: "Server \<Rightarrow> string list" where
  "opts s =
     (if length (rt_config (runtime s)) \<noteq> 0 then [''-c'', rt_config (runtime s)]
      else [''-s'', Host s, ''-p'', Sprint (sint (Port s)), ''-m'', Method s,
            ''-k'', Password s, ''-d'', Sprint (Timeout s)]) @
     BuildArgs (options s)"

record Cmd =
  cmd_Args :: "string list"
  cmd_Process :: "nat option"

definition Command :: "Server \<Rightarrow> Cmd" where
  "Command s = \<lparr>cmd_Args = ''ss-server'' # opts s, cmd_Process = None\<rparr>"

definition GetStat :: "Server \<Rightarrow> Stat" where
  "GetStat s = (case stat s of None \<Rightarrow> \<lparr>Traffic = 0\<rparr> | Some v \<Rightarrow> v)"

definition clone :: "Server \<Rightarrow> Server" where
  "clone s = s\<lparr>stat := Some (GetStat s), runtime := (runtime s)\<lparr>rt_logw := None\<rparr>\<rparr>"

subsection \<open>The manager and the world it acts on\<close>

text \<open>
  The first three fields are the \<open>manager\<close> struct (its two locks order concurrent
  callers and have no sequential content). \<open>servers\<close> maps a port to a \<open>*Server\<close>: an
  address into \<open>heap\<close>, where an address outside the heap stands for \<open>nil\<close>. The other
  fields are what the operating system holds: the \<open>exec.Cmd\<close> objects, the pids of the
  processes that are alive, the paths that exist on disk, and the log output.
\<close>

datatype log_entry = Debug string | Info string | Warn string

record state =
  servers :: "(int32 \<times> nat) list"
  path :: string
  udpPort :: int
  heap :: "Server list"
  cmds :: "Cmd list"
  alive :: "nat list"
  disk :: "string list"
  logs :: "log_entry list"

definition NewManager :: "int \<Rightarrow> string \<Rightarrow> state" where
  "NewManager port home =
     \<lparr>servers = [], path = path_Join home ''.shadowsocks_manager'', udpPort = port,
      heap = [], cmds = [], alive = [], disk = [], logs = []\<rparr>"

definition emit :: "log_entry \<Rightarrow> state \<Rightarrow> state" where
  "emit e st = st\<lparr>logs := logs st @ [e]\<rparr>"

text \<open>
  What the operating system answers is an input of each operation: the error (or
  \<open>None\<close> for \<open>nil\<close>) of \<open>os.MkdirAll\<close>, of \<open>Server.Save\<close>, of \<open>os.Create\<close>, of writing the
  pid file, of \<open>Process.Kill\<close> and of \<open>os.RemoveAll\<close>, and the error or the new pid of
  \<open>cmd.Start\<close>.
\<close>

record os_env =
  mkdir_err :: "string option"
  save_err :: "string option"
  create_err :: "string option"
  start :: "string + nat"
  pidfile_err :: "string option"
  kill_err :: "string option"
  rm_err :: "string option"

datatype mgr_error = ErrServerNotFound | ErrInvalidServer | ErrServerExists | OSError string

definition Process :: "state \<Rightarrow> Server \<Rightarrow> nat option" where
  "Process st s =
     (case rt_cmd (runtime s) of None \<Rightarrow> None | Some c \<Rightarrow> cmd_Process (cmds st ! c))"

text \<open>
  Modelled from the spec: \<open>process.Alive\<close> is in package \<open>process\<close> of this repository,
  which is not among the source files; the spec speaks of the process being alive or
  not, which is membership of the pid in the set of living processes.
\<close>

definition process_Alive :: "state \<Rightarrow> nat \<Rightarrow> bool" where
  "process_Alive st pid = (pid \<in> set (alive st))"

definition Alive :: "state \<Rightarrow> Server \<Rightarrow> bool" where
  "Alive st s = (case Process st s of None \<Rightarrow> False | Some pid \<Rightarrow> process_Alive st pid)"

definition under :: "string \<Rightarrow> string \<Rightarrow> bool" where
  "under dir p = (p = dir \<or> prefix (dir @ ''/'') p)"

subsection \<open>StatRecvHandler\<close>

text \<open>
  A \<open>[]byte\<close> argument is a slice: its \<open>elems\<close> (up to \<open>len\<close>) and the \<open>room\<close> of the
  backing array behind them (up to \<open>cap\<close>). \<open>data[:n]\<close> may reach into the room and
  panics beyond it; \<open>data[n:]\<close> panics when \<open>n\<close> exceeds the length.
\<close>

record byte_slice =
  elems :: string
  room :: string

definition slice_to :: "byte_slice \<Rightarrow> nat \<Rightarrow> string option" where
  "slice_to d n =
     (if n \<le> length (elems d) + length (room d) then Some (take n (elems d @ room d)) else None)"

definition slice_from :: "byte_slice \<Rightarrow> nat \<Rightarrow> string option" where
  "slice_from d n = (if n \<le> length (elems d) then Some (drop n (elems d)) else None)"

text \<open>
  \<open>json.Unmarshal\<close> into a \<open>map[string]int64\<close> is a parameter \<open>unmarshal\<close>: the error, or
  the entries of the decoded map in the order in which the \<open>range\<close> loop will visit
  them (an order Go leaves open). The loop takes the first entry visited and breaks.
\<close>

type_synonym unmarshal = "string \<Rightarrow> string + (string \<times> int) list"

definition first_stat :: "(string \<times> int) list \<Rightarrow> int \<times> int" where
  "first_stat entries =
     (case entries of [] \<Rightarrow> (- 1, - 1) | (portS, trafficS) # _ \<Rightarrow> (Atoi portS, trafficS))"

definition StatRecvHandler :: "unmarshal \<Rightarrow> state \<Rightarrow> byte_slice \<Rightarrow> (unit, state) outcome" where
  "StatRecvHandler um st data =
     (case slice_to data 4 of
        None \<Rightarrow> Panic SliceBounds st
      | Some cmd \<Rightarrow>
          if cmd \<noteq> ''stat''
          then Return () (emit (Warn (''Unrecognized command '' @ cmd @ '', dropped'')) st)
          else
            (case slice_from data 5 of
               None \<Rightarrow> Panic SliceBounds st
             | Some rest \<Rightarrow>
                 (let body = TrimSpace rest;
                      st1 = emit (Debug (''Stat body is '' @ body)) st in
                  case um body of
                    Inl err \<Rightarrow> Return () (emit (Warn (''Unmarshal error: '' @ err)) st1)
                  | Inr entries \<Rightarrow>
                      (let (port, traffic) = first_stat entries in
                       if port < 0 \<or> traffic < 0
                       then Return () (emit (Warn ''Invalid stat!'') st1)
                       else
                         (case map_of (servers st1) (word_of_int port :: int32) of
                            None \<Rightarrow>
                              Return () (emit (Warn (''Server on port '' @ Sprint port @
                                                      '' not found!'')) st1)
                          | Some a \<Rightarrow>
                              if a < length (heap st1)
                              then Return () (st1\<lparr>heap := (heap st1)
                                     [a := (heap st1 ! a)\<lparr>stat := Some \<lparr>Traffic = traffic\<rparr>\<rparr>]\<rparr>)
                              else Panic NilDereference st1)))))"

subsection \<open>Launching and killing\<close>

text \<open>
  \<open>prepareExec\<close> writes the three options through the pointer before anything can
  fail, creates the directory, saves the configuration, and only then records the
  path and the configuration file in the runtime.
\<close>

definition prepareExec :: "os_env \<Rightarrow> state \<Rightarrow> nat \<Rightarrow> string option \<times> state" where
  "prepareExec env st a =
     (let s = heap st ! a;
          pathPrefix = path_Join (path st) (Sprint (sint (Port s)));
          s1 = s\<lparr>options := (options s)
                  \<lparr>PidFile := path_Join pathPrefix ''ss_server.pid'',
                   ManagerAddress := ''127.0.0.1:'' @ Sprint (udpPort st),
                   Verbose := True\<rparr>\<rparr>;
          st1 = st\<lparr>heap := (heap st)[a := s1]\<rparr> in
      case mkdir_err env of
        Some err \<Rightarrow> (Some err, st1)
      | None \<Rightarrow>
          (let st2 = st1\<lparr>disk := List.insert pathPrefix (disk st1)\<rparr>;
               configFile = path_Join pathPrefix ''ss_server.json'' in
           case save_err env of
             Some err \<Rightarrow> (Some err, st2)
           | None \<Rightarrow>
               (None, st2\<lparr>disk := List.insert configFile (disk st2),
                          heap := (heap st2)
                            [a := s1\<lparr>runtime := (runtime s1)
                                     \<lparr>rt_path := pathPrefix, rt_config := configFile\<rparr>\<rparr>]\<rparr>)))"

text \<open>
  \<open>os.RemoveAll\<close> of the empty path does nothing and succeeds; when it fails, what is
  left of the tree is not determined by the program and the model leaves the disk as
  it was.
\<close>

definition deleteResidue :: "os_env \<Rightarrow> state \<Rightarrow> nat \<Rightarrow> string option \<times> state" where
  "deleteResidue env st a =
     (let dir = rt_path (runtime (heap st ! a)) in
      case rm_err env of
        Some err \<Rightarrow> (Some err, emit (Warn (''Can not delete managed server path '' @ dir)) st)
      | None \<Rightarrow>
          (None, if dir = [] then st
                 else st\<lparr>disk := filter (\<lambda>p. \<not> under dir p) (disk st)\<rparr>))"

definition SavePidFile :: "os_env \<Rightarrow> state \<Rightarrow> nat \<Rightarrow> string option \<times> state" where
  "SavePidFile env st a =
     (let s = heap st ! a; proc = Process st s in
      if length (PidFile (options s)) \<noteq> 0 \<and> proc \<noteq> None
      then (case pidfile_err env of
              Some err \<Rightarrow> (Some err, st)
            | None \<Rightarrow> (None, st\<lparr>disk := List.insert (PidFile (options s)) (disk st)\<rparr>))
      else (None, st))"

definition exec :: "os_env \<Rightarrow> state \<Rightarrow> nat \<Rightarrow> mgr_error option \<times> state" where
  "exec env st a =
     (case prepareExec env st a of
        (Some err, st1) \<Rightarrow> (Some (OSError err), st1)
      | (None, st1) \<Rightarrow>
          (let s = heap st1 ! a;
               logfile = path_Join (rt_path (runtime s)) ''ss_server.log'' in
           case create_err env of
             Some err \<Rightarrow> (Some (OSError err), st1)
           | None \<Rightarrow>
               (let c = length (cmds st1);
                    st2 = st1\<lparr>disk := List.insert logfile (disk st1),
                              cmds := cmds st1 @ [Command s],
                              heap := (heap st1)
                                [a := s\<lparr>runtime := (runtime s)
                                        \<lparr>rt_logw := Some logfile, rt_cmd := Some c\<rparr>\<rparr>]\<rparr> in
                case start env of
                  Inl err \<Rightarrow> (Some (OSError err), st2)
                | Inr pid \<Rightarrow>
                    (let st3 = st2\<lparr>cmds := (cmds st2)[c := (cmds st2 ! c)\<lparr>cmd_Process := Some pid\<rparr>],
                                   alive := List.insert pid (alive st2)\<rparr>;
                         st4 = (case SavePidFile env st3 a of
                                  (Some err, st') \<Rightarrow>
                                    emit (Warn (''Can not save pid file, '' @ err)) st'
                                | (None, st') \<Rightarrow> st') in
                     (None, emit (Info (''ss-server running at process '' @ Sprint (int pid)))
                                 st4)))))"

text \<open>
  \<open>kill\<close>: \<open>Kill\<close> on the process (a \<open>nil\<close> process is a nil dereference), \<open>cmd.Wait()\<close>,
  which returns once the process has exited, \<open>logw.Close()\<close> (a \<open>nil\<close> sink is a nil
  dereference) and \<open>deleteResidue\<close>, whose error is dropped.
\<close>

definition kill :: "os_env \<Rightarrow> state \<Rightarrow> nat \<Rightarrow> (unit, state) outcome" where
  "kill env st a =
     (let s = heap st ! a in
      case Process st s of
        None \<Rightarrow> Panic NilDereference st
      | Some pid \<Rightarrow>
          (let st1 = (case kill_err env of Some err \<Rightarrow> emit (Warn err) st | None \<Rightarrow> st);
               st2 = st1\<lparr>alive := removeAll pid (alive st1)\<rparr> in
           case rt_logw (runtime s) of
             None \<Rightarrow> Panic NilDereference st2
           | Some _ \<Rightarrow> Return () (snd (deleteResidue env st2 a))))"

subsection \<open>The operations of the Manager interface\<close>

text \<open>\<open>Add\<close> takes the caller's pointer; that very pointer is stored in the table.\<close>

definition Add :: "os_env \<Rightarrow> state \<Rightarrow> nat \<Rightarrow> (mgr_error option, state) outcome" where
  "Add env st a =
     (if \<not> a < length (heap st) then Panic NilDereference st
      else
        (let s = heap st ! a in
         if map_of (servers st) (Port s) \<noteq> None then Return (Some ErrServerExists) st
         else if \<not> Valid s then Return (Some ErrInvalidServer) st
         else
           (case exec env st a of
              (Some err, st1) \<Rightarrow> Return (Some err) st1
            | (None, st1) \<Rightarrow>
                Return None (st1\<lparr>servers := AList.update (Port (heap st1 ! a)) a (servers st1)\<rparr>))))"

definition remove :: "state \<Rightarrow> int32 \<Rightarrow> state" where
  "remove st port = st\<lparr>servers := AList.delete port (servers st)\<rparr>"

definition Remove :: "os_env \<Rightarrow> state \<Rightarrow> int32 \<Rightarrow> (mgr_error option, state) outcome" where
  "Remove env st port =
     (case map_of (servers st) port of
        None \<Rightarrow> Return (Some ErrServerNotFound) st
      | Some a \<Rightarrow>
          (case kill env (st\<lparr>servers := AList.delete port (servers st)\<rparr>) a of
             Panic p st1 \<Rightarrow> Panic p st1
           | Return _ st1 \<Rightarrow> Return None st1))"

text \<open>
  \<open>ListServers\<close> and \<open>GetServer\<close> return pointers to fresh copies: each clone is a new
  object at the end of the heap.
\<close>

fun clone_all ::
  "state \<Rightarrow> (int32 \<times> nat) list \<Rightarrow> (int32 \<times> nat) list \<Rightarrow> ((int32 \<times> nat) list, state) outcome" where
  "clone_all st currentServers [] = Return currentServers st"
| "clone_all st currentServers ((port, a) # rest) =
     (if a < length (heap st)
      then clone_all (st\<lparr>heap := heap st @ [clone (heap st ! a)]\<rparr>)
             (AList.update port (length (heap st)) currentServers) rest
      else Panic NilDereference st)"

definition ListServers :: "state \<Rightarrow> ((int32 \<times> nat) list, state) outcome" where
  "ListServers st = clone_all st [] (servers st)"

definition GetServer :: "state \<Rightarrow> int32 \<Rightarrow> (mgr_error + nat, state) outcome" where
  "GetServer st port =
     (case map_of (servers st) port of
        None \<Rightarrow> Return (Inl ErrServerNotFound) st
      | Some a \<Rightarrow>
          if a < length (heap st)
          then Return (Inr (length (heap st))) (st\<lparr>heap := heap st @ [clone (heap st ! a)]\<rparr>)
          else Panic NilDereference st)"

subsection \<open>ServerMonitor\<close>

text \<open>
  \<open>ServerMonitor\<close> never returns: it sleeps five seconds and makes one pass, forever.
  \<open>ServerMonitor_pass\<close> is one pass: the body of the loop after the sleep. It ranges
  over the clones that \<open>ListServers\<close> returned, and \<open>s\<close> in its body is such a clone.
  The answers of the operating system are given per port.
\<close>

fun monitor_range :: "(int32 \<Rightarrow> os_env) \<Rightarrow> state \<Rightarrow> (int32 \<times> nat) list \<Rightarrow> state" where
  "monitor_range envs st [] = st"
| "monitor_range envs st ((port, s) # rest) =
     (if \<not> Alive st (heap st ! s)
      then
        (case exec (envs port) st s of
           (Some err, st1) \<Rightarrow>
             (let st2 = emit (Warn ''Deleting server...'')
                          (emit (Warn ''Can not restart server'') st1);
                  st3 = snd (deleteResidue (envs port) st2 s) in
              monitor_range envs (remove st3 (Port (heap st3 ! s))) rest)
         | (None, st1) \<Rightarrow> monitor_range envs st1 rest)
      else monitor_range envs st rest)"

definition ServerMonitor_pass :: "(int32 \<Rightarrow> os_env) \<Rightarrow> state \<Rightarrow> (unit, state) outcome" where
  "ServerMonitor_pass envs st =
     (case ListServers st of
        Panic p st1 \<Rightarrow> Panic p st1
      | Return currentServers st1 \<Rightarrow> Return () (monitor_range envs st1 currentServers))"

subsection \<open>A decoder for closed instances\<close>

text \<open>
  The theorems on \<open>StatRecvHandler\<close> hold for every decoder. Where a closed instance
  needs one, \<open>unmarshal_flat\<close> decodes the objects a proxy child reports,
  \<open>{"port":bytes,...}\<close> with unescaped keys, integer values in the 64-bit range and no
  white space, as \<open>json.Unmarshal\<close> does, and visits the keys in the order written; it
  rejects every other text.
\<close>

fun take_key :: "string \<Rightarrow> (string \<times> string) option" where
  "take_key [] = None"
| "take_key (c # cs) =
     (if c = CHR 0x22 then Some ([], cs)
      else if c = CHR 0x5C \<or> (of_char c :: nat) < 32 then None
      else map_option (\<lambda>(k, r). (c # k, r)) (take_key cs))"

definition take_number :: "string \<Rightarrow> (int \<times> string) option" where
  "take_number s =
     (let neg = (s \<noteq> [] \<and> hd s = CHR ''-'');
          r = (if neg then tl s else s);
          ds = takeWhile is_digit r in
      if ds = [] \<or> (length ds > 1 \<and> hd ds = CHR ''0'') then None
      else case parse_digits 0 ds of
             None \<Rightarrow> None
           | Some n \<Rightarrow>
               (let v = (if neg then - int n else int n) in
                if - (2 ^ 63) \<le> v \<and> v < 2 ^ 63 then Some (v, dropWhile is_digit r) else None))"

fun decode_entries :: "nat \<Rightarrow> string \<Rightarrow> (string \<times> int) list \<Rightarrow> (string \<times> int) list option" where
  "decode_entries 0 s acc = None"
| "decode_entries (Suc n) s acc =
     (if s = [] \<or> hd s \<noteq> CHR 0x22 then None
      else case take_key (tl s) of
             None \<Rightarrow> None
           | Some (k, r1) \<Rightarrow>
               if r1 = [] \<or> hd r1 \<noteq> CHR '':'' then None
               else (case take_number (tl r1) of
                       None \<Rightarrow> None
                     | Some (v, r2) \<Rightarrow>
                         if r2 = ''}'' then Some (AList.update k v acc)
                         else if r2 \<noteq> [] \<and> hd r2 = CHR '','' 
                         then decode_entries n (tl r2) (AList.update k v acc)
                         else None))"

definition unmarshal_flat :: unmarshal where
  "unmarshal_flat body =
     (if body = ''{}'' then Inr []
      else if body \<noteq> [] \<and> hd body = CHR ''{''
      then (case decode_entries (length body) (tl body) [] of
              None \<Rightarrow> Inl ''invalid character''
            | Some entries \<Rightarrow> Inr entries)
      else Inl ''invalid character'')"

section \<open>Reading outcomes and states\<close>

definition final :: "('a, 's) outcome \<Rightarrow> 's" where
  "final r = (case r of Panic _ st \<Rightarrow> st | Return _ st \<Rightarrow> st)"

definition returned :: "('a, 's) outcome \<Rightarrow> 'a option" where
  "returned r = (case r of Panic _ _ \<Rightarrow> None | Return v _ \<Rightarrow> Some v)"

text \<open>Every pointer held by the table points to a \<open>Server\<close> object.\<close>

definition wf_table :: "state \<Rightarrow> bool" where
  "wf_table st = list_all (\<lambda>(port, a). a < length (heap st)) (servers st)"

text \<open>What a caller reads through the pointers that \<open>GetServer\<close> or \<open>ListServers\<close> returned.\<close>

definition snapshot_of :: "(mgr_error + nat, state) outcome \<Rightarrow> (mgr_error + Server) option" where
  "snapshot_of r =
     (case r of
        Panic _ _ \<Rightarrow> None
      | Return (Inl err) _ \<Rightarrow> Some (Inl err)
      | Return (Inr c) st \<Rightarrow> Some (Inr (heap st ! c)))"

definition snapshots_of ::
  "((int32 \<times> nat) list, state) outcome \<Rightarrow> (int32 \<times> Server) list option" where
  "snapshots_of r =
     (case r of
        Panic _ _ \<Rightarrow> None
      | Return cs st \<Rightarrow> Some (map (\<lambda>(port, c). (port, heap st ! c)) cs))"

text \<open>
  The two ways a telemetry packet can end: \<open>dropped\<close> changes nothing but the log, whose
  last line is then a warning; \<open>stat_stored a t\<close> replaces the \<open>stat\<close> of the one object
  at \<open>a\<close> by \<open>Stat{Traffic: t}\<close> and changes nothing else but the log.
\<close>

definition is_Warn :: "log_entry \<Rightarrow> bool" where
  "is_Warn e = (case e of Warn _ \<Rightarrow> True | _ \<Rightarrow> False)"

definition dropped :: "state \<Rightarrow> state \<Rightarrow> bool" where
  "dropped st st' =
     (st' = st\<lparr>logs := logs st'\<rparr> \<and> prefix (logs st) (logs st') \<and>
      logs st' \<noteq> [] \<and> is_Warn (last (logs st')))"

definition stat_stored :: "nat \<Rightarrow> int \<Rightarrow> state \<Rightarrow> state \<Rightarrow> bool" where
  "stat_stored a t st st' =
     (a < length (heap st) \<and>
      st' = st\<lparr>heap := (heap st)[a := (heap st ! a)\<lparr>stat := Some \<lparr>Traffic = t\<rparr>\<rparr>],
               logs := logs st'\<rparr> \<and>
      prefix (logs st) (logs st'))"

text \<open>The paths on disk that lie in the working directory of the object at \<open>a\<close>.\<close>

definition artifacts :: "state \<Rightarrow> string \<Rightarrow> string list" where
  "artifacts st dir = filter (under dir) (disk st)"

section \<open>A supervisor with one server\<close>

text \<open>
  The closed instances below use one valid configuration on port 8388, an operating
  system on which every call succeeds and \<open>cmd.Start\<close> yields the given pid, and the
  supervisor after \<open>Add\<close> of that configuration.
\<close>

definition no_options :: serverOptions where
  "no_options =
     \<lparr>MPTCP = False, TCPFastOpen = False, Auth = False, NameServer = [], PidFile = [],
      ManagerAddress = [], Interface = [], FireWall = False, Verbose = False\<rparr>"

definition example_server :: Server where
  "example_server =
     \<lparr>Host = ''0.0.0.0'', Port = 8388, Password = ''password'', Method = ''aes-256-cfb'',
      Timeout = 60, stat = None, options = no_options,
      runtime = \<lparr>rt_path = [], rt_cmd = None, rt_logw = None, rt_config = []\<rparr>\<rparr>"

definition ok_env :: "nat \<Rightarrow> os_env" where
  "ok_env pid =
     \<lparr>mkdir_err = None, save_err = None, create_err = None, start = Inr pid,
      pidfile_err = None, kill_err = None, rm_err = None\<rparr>"

definition example_manager :: state where
  "example_manager = (NewManager 6001 ''/home/ss'')\<lparr>heap := [example_server]\<rparr>"

definition example_running :: state where
  "example_running = final (Add (ok_env 100) example_manager 0)"

text \<open>The same supervisor after its one process has died without the supervisor's doing.\<close>

definition example_crashed :: state where
  "example_crashed = example_running\<lparr>alive := []\<rparr>"

text \<open>A supervisor with a second server, on port 8389.\<close>

definition example_two :: state where
  "example_two =
     final (Add (ok_env 101)
              (example_running\<lparr>heap := heap example_running @ [example_server\<lparr>Port := 8389\<rparr>]\<rparr>) 1)"

section \<open>Properties of the remote slave proxy\<close>

subsection \<open>The stats map of a new slave\<close>

lemma addPorts_nil_stats:
  "stats m = None \<Longrightarrow> srvs \<noteq> [] \<Longrightarrow>
   \<exists>m'. addPorts m srvs = Panic NilMapAssignment m' \<and> stats m' = None"
  by (cases srvs) (auto split: option.splits)

lemma setStats_nil_stats:
  "stats m = None \<Longrightarrow> map_entries traffics \<noteq> [] \<Longrightarrow>
   setStats m traffics = Panic NilMapAssignment m"
  by (cases "map_entries traffics") (auto simp: setStats_def)

lemma removePorts_nil_stats: "stats m = None \<Longrightarrow> stats (removePorts m srvs) = None"
  by (induction srvs arbitrary: m) (auto simp: map_delete_def)

text \<open>
  Claim C10. \<open>NewSlave\<close> initialises \<open>openedPorts\<close> and leaves \<open>stats\<close> \<open>nil\<close>, and
  \<open>Dial\<close> does not change that. On a dialed slave whose \<open>stats\<close> map is \<open>nil\<close>, each
  operation that writes a traffic counter after a successful remote call panics on the
  assignment into the \<open>nil\<close> map and records nothing: \<open>Allocate\<close> with a non-empty
  returned list, \<open>GetStats\<close> with a non-empty reply, \<open>SetStats\<close> with a non-empty
  argument.
\<close>

theorem C10_nil_stats_map:
  assumes "stats (meta s) = None" and "stub s = Some c"
  shows "stats (meta (NewSlave url tok)) = None \<and>
         openedPorts (meta (NewSlave url tok)) = Some [] \<and>
         stats (meta (snd (Dial (NewSlave url tok) dialed))) = None \<and>
         (resp \<noteq> [] \<longrightarrow>
            (\<exists>s'. Allocate s srvs (RpcReply resp) = Panic NilMapAssignment s' \<and>
                   stats (meta s') = None)) \<and>
         (map_entries traffics \<noteq> [] \<longrightarrow>
            GetStats s (RpcReply traffics) = Panic NilMapAssignment s) \<and>
         (map_entries traffics \<noteq> [] \<longrightarrow>
            SetStats s traffics (RpcReply ()) = Panic NilMapAssignment s)"
proof -
  have new: "stats (meta (NewSlave url tok)) = None \<and>
             openedPorts (meta (NewSlave url tok)) = Some [] \<and>
             stats (meta (snd (Dial (NewSlave url tok) dialed))) = None"
    by (simp add: NewSlave_def Dial_def split: sum.splits)
  have alloc: "\<exists>s'. Allocate s srvs (RpcReply resp) = Panic NilMapAssignment s' \<and>
                    stats (meta s') = None" if "resp \<noteq> []"
  proof -
    from that have "constructServiceList resp \<noteq> []"
      by (simp add: constructServiceList_def)
    with assms(1) obtain m' where
      "addPorts (meta s) (constructServiceList resp) = Panic NilMapAssignment m'"
      "stats m' = None"
      using addPorts_nil_stats by blast
    then show ?thesis
      using assms(2) by (simp add: Allocate_def)
  qed
  have get: "GetStats s (RpcReply traffics) = Panic NilMapAssignment s"
    and set: "SetStats s traffics (RpcReply ()) = Panic NilMapAssignment s"
    if "map_entries traffics \<noteq> []"
    using that assms setStats_nil_stats [of "meta s" traffics]
    by (simp_all add: GetStats_def SetStats_def)
  from new alloc get set show ?thesis
    by blast
qed

theorem C10_nil_stats_map_witness:
  "stats (meta (snd (Dial (NewSlave ''node:6001'' ''secret'') (Inr 0)))) = None \<and>
   stub (snd (Dial (NewSlave ''node:6001'' ''secret'') (Inr 0))) = Some 0 \<and>
   (\<exists>s'. Allocate (snd (Dial (NewSlave ''node:6001'' ''secret'') (Inr 0)))
            [\<lparr>UserId = ''u1'', srv_Port = 8388, srv_Password = ''password''\<rparr>]
            (RpcReply [\<lparr>p_UserId = ''u1'', p_Port = 8388, p_Password = ''password''\<rparr>])
          = Panic NilMapAssignment s' \<and> stats (meta s') = None) \<and>
   GetStats (snd (Dial (NewSlave ''node:6001'' ''secret'') (Inr 0))) (RpcReply (Some [(8388, 1024)]))
     = Panic NilMapAssignment (snd (Dial (NewSlave ''node:6001'' ''secret'') (Inr 0))) \<and>
   SetStats (snd (Dial (NewSlave ''node:6001'' ''secret'') (Inr 0))) (Some [(8388, 1024)]) (RpcReply ())
     = Panic NilMapAssignment (snd (Dial (NewSlave ''node:6001'' ''secret'') (Inr 0)))"
proof -
  let ?s = "snd (Dial (NewSlave ''node:6001'' ''secret'') (Inr 0))"
  have h1: "stats (meta ?s) = None" and h2: "stub ?s = Some 0"
    by (simp_all add: NewSlave_def Dial_def)
  have e: "map_entries (Some [(8388 :: int32, 1024 :: int)]) \<noteq> []"
    by (simp add: map_entries_def)
  show ?thesis
    using C10_nil_stats_map [OF h1 h2,
        where resp = "[\<lparr>p_UserId = ''u1'', p_Port = 8388, p_Password = ''password''\<rparr>]"
          and srvs = "[\<lparr>UserId = ''u1'', srv_Port = 8388, srv_Password = ''password''\<rparr>]"
          and traffics = "Some [(8388, 1024)]"] h1 h2 e
    by simp
qed

text \<open>
  Claim C2. On the slave that \<open>NewSlave\<close> and a successful \<open>Dial\<close> produce, \<open>Allocate\<close> of
  one service that the remote side returns unchanged does not merge it: the port is
  stored in \<open>openedPorts\<close>, and the assignment of its zero counter panics on the \<open>nil\<close>
  \<open>stats\<close> map.
\<close>

theorem C2_Allocate_on_new_slave:
  "Allocate (snd (Dial (NewSlave ''node:6001'' ''secret'') (Inr 0)))
     [\<lparr>UserId = ''u1'', srv_Port = 8388, srv_Password = ''password''\<rparr>]
     (RpcReply [\<lparr>p_UserId = ''u1'', p_Port = 8388, p_Password = ''password''\<rparr>])
   = Panic NilMapAssignment
       \<lparr>remoteURL = ''node:6001'', conn = Some 0, stub = Some 0, token = ''secret'',
        meta = \<lparr>openedPorts =
                  Some [(8388, \<lparr>UserId = ''u1'', srv_Port = 8388, srv_Password = ''password''\<rparr>)],
                stats = None\<rparr>\<rparr>"
  by (simp add: Allocate_def NewSlave_def Dial_def constructServiceList_def
      constructProtocolServiceList_def)

text \<open>The other two parts of that contract hold: a failed call changes nothing.\<close>

lemma Allocate_rpc_failure:
  "stub s = Some c \<Longrightarrow> Allocate s srvs (RpcError err) = Return ([], Some (RpcFailure err)) s"
  by (simp add: Allocate_def)

subsection \<open>Reconciliation\<close>

lemma image_not_in_image: "f ` {p \<in> A. f p \<notin> f ` B} = f ` A - f ` B"
proof (rule set_eqI)
  fix k
  show "k \<in> f ` {p \<in> A. f p \<notin> f ` B} \<longleftrightarrow> k \<in> f ` A - f ` B"
    by (auto simp: image_iff)
qed

lemma compareLists_keys:
  "set (map difference_key (compareLists req ret)) =
     (keys_of req - keys_of ret) \<union> (keys_of ret - keys_of req)"
proof -
  have "difference_key \<circ> Missing = identity_key" "difference_key \<circ> Unexpected = identity_key"
    by (auto simp: fun_eq_iff)
  then have "set (map difference_key (compareLists req ret)) =
      identity_key ` {p \<in> set req. identity_key p \<notin> keys_of ret} \<union>
      identity_key ` {p \<in> set ret. identity_key p \<notin> keys_of req}"
    by (simp add: compareLists_def image_Un image_image)
  also have "\<dots> = (keys_of req - keys_of ret) \<union> (keys_of ret - keys_of req)"
    by (simp only: keys_of_def set_map image_not_in_image)
  finally show ?thesis .
qed

lemma compareLists_empty_iff:
  "compareLists req ret = [] \<longleftrightarrow> keys_of req = keys_of ret"
  by (simp add: compareLists_def keys_of_def filter_empty_conv) blast

text \<open>
  Claim C3, as the code has it. The reported difference has exactly the identity keys
  of the symmetric difference of the two lists. \<open>Free\<close>, and \<open>Allocate\<close> whenever
  \<open>addPorts\<close> returns, deliver the returned list, with no error when the key sets are
  equal and with the one aggregated error otherwise. \<open>ListServices\<close> compares the
  recorded services with the reply, delivers the reply with no error in either case,
  and only logs the aggregated difference.
\<close>

theorem C3_reconciliation:
  assumes "stub s = Some c"
  shows "set (map difference_key (compareLists req ret)) =
           (keys_of req - keys_of ret) \<union> (keys_of ret - keys_of req) \<and>
         Free s srvs (RpcReply ret) =
           Return (constructServiceList ret,
                   if keys_of (constructProtocolServiceList srvs) = keys_of ret then None
                   else Some (DifferenceError
                                (compareLists (constructProtocolServiceList srvs) ret)))
                  (s\<lparr>meta := removePorts (meta s) (constructServiceList ret)\<rparr>) \<and>
         (addPorts (meta s) (constructServiceList ret) = Return () m \<longrightarrow>
            Allocate s srvs (RpcReply ret) =
              Return (constructServiceList ret,
                      if keys_of (constructProtocolServiceList srvs) = keys_of ret then None
                      else Some (DifferenceError
                                   (compareLists (constructProtocolServiceList srvs) ret)))
                     (s\<lparr>meta := m\<rparr>)) \<and>
         ListServices s (RpcReply ret) =
           (Return (constructServiceList ret, None) s,
            if keys_of (constructProtocolServiceList (meta_ListServices (meta s))) = keys_of ret
            then []
            else [DifferenceError
                    (compareLists (constructProtocolServiceList (meta_ListServices (meta s)))
                       ret)])"
  using assms compareLists_keys [of req ret]
  by (simp add: compareLists_empty_iff Free_def Allocate_def ListServices_def
      constructErrorFromDifferenceServiceList_def Let_def)

theorem C3_reconciliation_witness:
  "stub (snd (Dial (NewSlave ''node:6001'' ''secret'') (Inr 0))) = Some 0 \<and>
   addPorts (meta (snd (Dial (NewSlave ''node:6001'' ''secret'') (Inr 0)))) (constructServiceList [])
     = Return () \<lparr>openedPorts = Some [], stats = None\<rparr> \<and>
   Allocate (snd (Dial (NewSlave ''node:6001'' ''secret'') (Inr 0)))
     [\<lparr>UserId = ''u1'', srv_Port = 8388, srv_Password = ''password''\<rparr>] (RpcReply [])
   = Return ([], Some (DifferenceError
                [Missing \<lparr>p_UserId = ''u1'', p_Port = 8388, p_Password = ''password''\<rparr>]))
       (snd (Dial (NewSlave ''node:6001'' ''secret'') (Inr 0)))"
proof -
  let ?s = "snd (Dial (NewSlave ''node:6001'' ''secret'') (Inr 0))"
  have h: "stub ?s = Some 0"
    by (simp add: NewSlave_def Dial_def)
  have a: "addPorts (meta ?s) (constructServiceList []) =
             Return () \<lparr>openedPorts = Some [], stats = None\<rparr>"
    by (simp add: NewSlave_def Dial_def constructServiceList_def)
  show ?thesis
    using C3_reconciliation [OF h,
        where ret = "[]" and m = "\<lparr>openedPorts = Some [], stats = None\<rparr>"
          and srvs = "[\<lparr>UserId = ''u1'', srv_Port = 8388, srv_Password = ''password''\<rparr>]"] h a
    by (simp add: NewSlave_def Dial_def constructProtocolServiceList_def keys_of_def
        compareLists_def constructServiceList_def)
qed

text \<open>
  \<open>ListServices\<close> on a new, dialed slave whose remote side reports one service: the
  difference is not empty, and the call returns the list with a \<open>nil\<close> error.
\<close>

theorem C3_ListServices_counterexample:
  "ListServices (snd (Dial (NewSlave ''node:6001'' ''secret'') (Inr 0)))
     (RpcReply [\<lparr>p_UserId = ''u1'', p_Port = 8388, p_Password = ''password''\<rparr>])
   = (Return ([\<lparr>UserId = ''u1'', srv_Port = 8388, srv_Password = ''password''\<rparr>], None)
        (snd (Dial (NewSlave ''node:6001'' ''secret'') (Inr 0))),
      [DifferenceError
         [Unexpected \<lparr>p_UserId = ''u1'', p_Port = 8388, p_Password = ''password''\<rparr>] ])"
  by (simp add: ListServices_def NewSlave_def Dial_def meta_ListServices_def map_entries_def
      constructProtocolServiceList_def constructServiceList_def compareLists_def keys_of_def
      constructErrorFromDifferenceServiceList_def)

subsection \<open>Dial and Close\<close>

text \<open>
  Claim C9, as the code has it. \<open>Close\<close> on a slave whose connection is \<open>nil\<close> panics,
  and a failed \<open>Dial\<close> leaves it \<open>nil\<close>. After a successful \<open>Dial\<close> one \<open>Close\<close> returns
  what closing the connection returns and clears \<open>conn\<close> and \<open>stub\<close>; a second \<open>Close\<close>
  panics.
\<close>

theorem C9_Close:
  "(conn s = None \<longrightarrow>
      Close s closed = Panic NilDereference (s\<lparr>conn := None, stub := None\<rparr>)) \<and>
   Dial s (Inl err) = (Some err, s) \<and>
   (Dial s (Inr c) = (None, s1) \<longrightarrow>
      Close s1 closed = Return closed (s1\<lparr>conn := None, stub := None\<rparr>) \<and>
      Close (s1\<lparr>conn := None, stub := None\<rparr>) closed' =
        Panic NilDereference (s1\<lparr>conn := None, stub := None\<rparr>))"
  by (auto simp: Close_def Dial_def)

theorem C9_Close_witness:
  "conn (NewSlave ''node:6001'' ''secret'') = None \<and>
   Dial (NewSlave ''node:6001'' ''secret'') (Inr 0) =
     (None, (NewSlave ''node:6001'' ''secret'')\<lparr>conn := Some 0, stub := Some 0\<rparr>) \<and>
   Close ((NewSlave ''node:6001'' ''secret'')\<lparr>conn := Some 0, stub := Some 0\<rparr>) None =
     Return None (NewSlave ''node:6001'' ''secret'') \<and>
   Close (NewSlave ''node:6001'' ''secret'') None =
     Panic NilDereference (NewSlave ''node:6001'' ''secret'')"
  using C9_Close [of "NewSlave ''node:6001'' ''secret''" None "''refused''" 0
      "(NewSlave ''node:6001'' ''secret'')\<lparr>conn := Some 0, stub := Some 0\<rparr>" None]
  by (simp add: NewSlave_def Dial_def)

text \<open>\<open>Close\<close> on the slave that \<open>NewSlave\<close> returns, never dialed.\<close>

theorem C9_Close_never_dialed_counterexample:
  "Close (NewSlave ''node:6001'' ''secret'') None
   = Panic NilDereference (NewSlave ''node:6001'' ''secret'')"
  by (simp add: Close_def NewSlave_def)

section \<open>Properties of the process supervisor\<close>

subsection \<open>The example supervisor, evaluated\<close>

lemma Sprint_examples:
  "Sprint 8388 = ''8388''" "Sprint 6001 = ''6001''" "Sprint 100 = ''100''" "Sprint 101 = ''101''" "Sprint 8389 = ''8389''"
  by (simp_all add: Sprint_def string_of_nat.simps)

lemma Valid_example: "Valid example_server"
  by (simp add: Valid_def example_server_def ValidateEncryptMethod_def methods_def)

lemmas exec_defs = exec_def prepareExec_def SavePidFile_def Process_def Command_def opts_def
  BuildArgs_def emit_def path_Join_def Sprint_examples

lemma example_running_eq: "example_running = 
  \<lparr>servers = [(8388, 0)], path = ''/home/ss/.shadowsocks_manager'', udpPort = 6001,
   heap = [example_server\<lparr>options := no_options\<lparr>PidFile := ''/home/ss/.shadowsocks_manager/8388/ss_server.pid'', ManagerAddress := ''127.0.0.1:6001'', Verbose := True\<rparr>,
       runtime := \<lparr>rt_path = ''/home/ss/.shadowsocks_manager/8388'', rt_cmd = Some 0, rt_logw = Some ''/home/ss/.shadowsocks_manager/8388/ss_server.log'', rt_config = ''/home/ss/.shadowsocks_manager/8388/ss_server.json''\<rparr>\<rparr>],
   cmds = [\<lparr>cmd_Args = [''ss-server'', ''-c'', ''/home/ss/.shadowsocks_manager/8388/ss_server.json'', ''--manager-address'', ''127.0.0.1:6001'', ''-v''], cmd_Process = Some 100\<rparr>],
   alive = [100],
   disk = [''/home/ss/.shadowsocks_manager/8388/ss_server.pid'', ''/home/ss/.shadowsocks_manager/8388/ss_server.log'', ''/home/ss/.shadowsocks_manager/8388/ss_server.json'', ''/home/ss/.shadowsocks_manager/8388''],
   logs = [Info ''ss-server running at process 100'']\<rparr>"
  unfolding example_running_def
  by (simp add: Add_def example_manager_def NewManager_def Valid_example [unfolded example_server_def no_options_def] exec_defs ok_env_def final_def Let_def example_server_def no_options_def)

lemma Add_example: "Add (ok_env 100) example_manager 0 = Return None example_running"
  unfolding example_running_eq
  by (simp add: Add_def example_manager_def NewManager_def Valid_example [unfolded example_server_def no_options_def] exec_defs ok_env_def final_def Let_def example_server_def no_options_def)


lemma example_two_eq: "example_two =
  \<lparr>servers = [(8388, 0), (8389, 1)], path = ''/home/ss/.shadowsocks_manager'', udpPort = 6001,
   heap = [example_server\<lparr>options := no_options\<lparr>PidFile := ''/home/ss/.shadowsocks_manager/8388/ss_server.pid'', ManagerAddress := ''127.0.0.1:6001'', Verbose := True\<rparr>,
       runtime := \<lparr>rt_path = ''/home/ss/.shadowsocks_manager/8388'', rt_cmd = Some 0, rt_logw = Some ''/home/ss/.shadowsocks_manager/8388/ss_server.log'', rt_config = ''/home/ss/.shadowsocks_manager/8388/ss_server.json''\<rparr>\<rparr>,
     example_server\<lparr>Port := 8389, options := no_options\<lparr>PidFile := ''/home/ss/.shadowsocks_manager/8389/ss_server.pid'', ManagerAddress := ''127.0.0.1:6001'', Verbose := True\<rparr>,
       runtime := \<lparr>rt_path = ''/home/ss/.shadowsocks_manager/8389'', rt_cmd = Some 1, rt_logw = Some ''/home/ss/.shadowsocks_manager/8389/ss_server.log'', rt_config = ''/home/ss/.shadowsocks_manager/8389/ss_server.json''\<rparr>\<rparr>],
   cmds = [\<lparr>cmd_Args = [''ss-server'', ''-c'', ''/home/ss/.shadowsocks_manager/8388/ss_server.json'', ''--manager-address'', ''127.0.0.1:6001'', ''-v''], cmd_Process = Some 100\<rparr>,
           \<lparr>cmd_Args = [''ss-server'', ''-c'', ''/home/ss/.shadowsocks_manager/8389/ss_server.json'', ''--manager-address'', ''127.0.0.1:6001'', ''-v''], cmd_Process = Some 101\<rparr>],
   alive = [101, 100],
   disk = [''/home/ss/.shadowsocks_manager/8389/ss_server.pid'', ''/home/ss/.shadowsocks_manager/8389/ss_server.log'', ''/home/ss/.shadowsocks_manager/8389/ss_server.json'', ''/home/ss/.shadowsocks_manager/8389'',
           ''/home/ss/.shadowsocks_manager/8388/ss_server.pid'', ''/home/ss/.shadowsocks_manager/8388/ss_server.log'', ''/home/ss/.shadowsocks_manager/8388/ss_server.json'', ''/home/ss/.shadowsocks_manager/8388''],
   logs = [Info ''ss-server running at process 100'', Info ''ss-server running at process 101'']\<rparr>"
  unfolding example_two_def example_running_eq
  by (simp add: Add_def Valid_def ValidateEncryptMethod_def methods_def exec_defs ok_env_def final_def Let_def example_server_def no_options_def)

lemma monitor_crashed:
  "ServerMonitor_pass (\<lambda>_. ok_env 101) example_crashed = Return ()
  \<lparr>servers = [(8388, 0)], path = ''/home/ss/.shadowsocks_manager'', udpPort = 6001,
   heap = [example_server\<lparr>options := no_options\<lparr>PidFile := ''/home/ss/.shadowsocks_manager/8388/ss_server.pid'', ManagerAddress := ''127.0.0.1:6001'', Verbose := True\<rparr>,
       runtime := \<lparr>rt_path = ''/home/ss/.shadowsocks_manager/8388'', rt_cmd = Some 0, rt_logw = Some ''/home/ss/.shadowsocks_manager/8388/ss_server.log'', rt_config = ''/home/ss/.shadowsocks_manager/8388/ss_server.json''\<rparr>\<rparr>,
     example_server\<lparr>stat := Some \<lparr>Traffic = 0\<rparr>, options := no_options\<lparr>PidFile := ''/home/ss/.shadowsocks_manager/8388/ss_server.pid'', ManagerAddress := ''127.0.0.1:6001'', Verbose := True\<rparr>,
       runtime := \<lparr>rt_path = ''/home/ss/.shadowsocks_manager/8388'', rt_cmd = Some 1, rt_logw = Some ''/home/ss/.shadowsocks_manager/8388/ss_server.log'', rt_config = ''/home/ss/.shadowsocks_manager/8388/ss_server.json''\<rparr>\<rparr>],
   cmds = [\<lparr>cmd_Args = [''ss-server'', ''-c'', ''/home/ss/.shadowsocks_manager/8388/ss_server.json'', ''--manager-address'', ''127.0.0.1:6001'', ''-v''], cmd_Process = Some 100\<rparr>,
           \<lparr>cmd_Args = [''ss-server'', ''-c'', ''/home/ss/.shadowsocks_manager/8388/ss_server.json'', ''--manager-address'', ''127.0.0.1:6001'', ''-v''], cmd_Process = Some 101\<rparr>],
   alive = [101],
   disk = [''/home/ss/.shadowsocks_manager/8388/ss_server.pid'', ''/home/ss/.shadowsocks_manager/8388/ss_server.log'', ''/home/ss/.shadowsocks_manager/8388/ss_server.json'', ''/home/ss/.shadowsocks_manager/8388''],
   logs = [Info ''ss-server running at process 100'', Info ''ss-server running at process 101'']\<rparr>"
  unfolding example_crashed_def example_running_eq
  by (simp add: ServerMonitor_pass_def ListServers_def clone_def GetStat_def Alive_def process_Alive_def
      exec_defs ok_env_def Let_def example_server_def no_options_def)

subsection \<open>Add and Remove\<close>

text \<open>
  Claim C5. After an \<open>Add\<close> that succeeded, the table holds the pointer under its port,
  and any further \<open>Add\<close> of a server with that port, valid or not and whatever the
  operating system would answer, returns \<open>ErrServerExists\<close> and leaves the whole state
  as it was: the first entry's configuration, its stat and the table.
\<close>

theorem C5_Add_twice:
  assumes "Add env st a1 = Return None st1"
    and "a2 < length (heap st1)"
    and "Port (heap st1 ! a2) = Port (heap st1 ! a1)"
  shows "map_of (servers st1) (Port (heap st1 ! a1)) = Some a1 \<and>
         Add env' st1 a2 = Return (Some ErrServerExists) st1"
proof -
  from assms(1) obtain st' where
    st1: "st1 = st'\<lparr>servers := AList.update (Port (heap st' ! a1)) a1 (servers st')\<rparr>"
    by (auto simp: Add_def Let_def split: if_splits prod.splits option.splits)
  then have entry: "map_of (servers st1) (Port (heap st1 ! a1)) = Some a1"
    by (simp add: update_conv')
  with assms(2,3) show ?thesis
    by (simp add: Add_def)
qed

theorem C5_Add_twice_witness:
  "Add (ok_env 100) example_manager 0 = Return None example_running \<and>
   Add (ok_env 101) example_running 0 = Return (Some ErrServerExists) example_running \<and>
   map_of (servers example_running) 8388 = Some 0"
proof -
  have h: "0 < length (heap example_running)"
    by (simp add: example_running_eq)
  have p: "Port (heap example_running ! 0) = 8388"
    by (simp add: example_running_eq example_server_def)
  show ?thesis
    using C5_Add_twice [OF Add_example h refl, of "ok_env 101"] Add_example p
    by simp
qed

lemma kill_servers: "servers (final (kill env st a)) = servers st"
  by (simp add: kill_def deleteResidue_def emit_def final_def Let_def
      split: option.splits)

text \<open>
  Claim C6, as the code has it. \<open>Remove\<close> of an absent port returns \<open>ErrServerNotFound\<close>
  and changes nothing. \<open>Remove\<close> of a present port deletes the table entry before
  \<open>kill\<close> runs, so the entry is gone in every outcome of \<open>kill\<close>; for an entry with a
  process and a log sink the call returns \<open>nil\<close>, and nothing under the entry's working
  directory is left on disk when \<open>os.RemoveAll\<close> succeeds. When \<open>os.RemoveAll\<close> fails,
  the call still returns \<open>nil\<close> and a warning is logged.
\<close>

theorem C6_Remove:
  "(map_of (servers st) port = None \<longrightarrow>
      Remove env st port = Return (Some ErrServerNotFound) st) \<and>
   (map_of (servers st) port = Some a \<longrightarrow>
      map_of (servers (final (Remove env st port))) port = None \<and>
      (Process st (heap st ! a) \<noteq> None \<and> rt_logw (runtime (heap st ! a)) \<noteq> None \<longrightarrow>
         returned (Remove env st port) = Some None \<and>
         (rm_err env = None \<and> rt_path (runtime (heap st ! a)) \<noteq> [] \<longrightarrow>
            artifacts (final (Remove env st port)) (rt_path (runtime (heap st ! a))) = []) \<and>
         (rm_err env \<noteq> None \<longrightarrow>
            is_Warn (last (logs (final (Remove env st port)))))))"
proof -
  have absent: "Remove env st port = Return (Some ErrServerNotFound) st"
    if "map_of (servers st) port = None"
    using that by (simp add: Remove_def)
  have present: "map_of (servers (final (Remove env st port))) port = None"
    if "map_of (servers st) port = Some a"
  proof -
    let ?st = "st\<lparr>servers := AList.delete port (servers st)\<rparr>"
    have "final (Remove env st port) = final (kill env ?st a)"
      using that by (simp add: Remove_def final_def split: outcome.splits)
    then show ?thesis
      by (simp add: kill_servers delete_conv')
  qed
  have rest: "returned (Remove env st port) = Some None \<and>
         (rm_err env = None \<and> rt_path (runtime (heap st ! a)) \<noteq> [] \<longrightarrow>
            artifacts (final (Remove env st port)) (rt_path (runtime (heap st ! a))) = []) \<and>
         (rm_err env \<noteq> None \<longrightarrow>
            is_Warn (last (logs (final (Remove env st port)))))"
    if "map_of (servers st) port = Some a" "Process st (heap st ! a) \<noteq> None"
       "rt_logw (runtime (heap st ! a)) \<noteq> None"
    using that
    by (auto simp: Remove_def kill_def deleteResidue_def emit_def final_def returned_def
        Process_def artifacts_def is_Warn_def Let_def filter_empty_conv
        split: option.splits)
  from absent present rest show ?thesis
    by blast
qed

theorem C6_Remove_witness:
  "map_of (servers example_running) 8389 = None \<and>
   Remove (ok_env 0) example_running 8389 = Return (Some ErrServerNotFound) example_running \<and>
   map_of (servers example_running) 8388 = Some 0 \<and>
   returned (Remove (ok_env 0) example_running 8388) = Some None \<and>
   map_of (servers (final (Remove (ok_env 0) example_running 8388))) 8388 = None \<and>
   disk (final (Remove (ok_env 0) example_running 8388)) = [] \<and>
   is_Warn (last (logs (final (Remove ((ok_env 0)\<lparr>rm_err := Some ''permission denied''\<rparr>)
                                  example_running 8388))))"
proof -
  have a: "map_of (servers example_running) 8389 = None"
    and b: "map_of (servers example_running) 8388 = Some 0"
    and c: "Process example_running (heap example_running ! 0) \<noteq> None"
    and d: "rt_logw (runtime (heap example_running ! 0)) \<noteq> None"
    and e: "rt_path (runtime (heap example_running ! 0)) = ''/home/ss/.shadowsocks_manager/8388''"
    by (simp_all add: example_running_eq Process_def)
  have f: "disk example_running = filter (under ''/home/ss/.shadowsocks_manager/8388'') (disk example_running)"
    by (simp add: example_running_eq under_def)
  have g: "disk (final (Remove (ok_env 0) example_running 8388)) = []"
    by (simp add: example_running_eq Remove_def kill_def deleteResidue_def final_def Process_def
        ok_env_def under_def)
  show ?thesis
    using C6_Remove [of example_running 8389 "ok_env 0" 0]
      C6_Remove [of example_running 8388 "ok_env 0" 0]
      C6_Remove [of example_running 8388 "(ok_env 0)\<lparr>rm_err := Some ''permission denied''\<rparr>" 0]
      a b c d e g
    by (simp add: ok_env_def)
qed

text \<open>
  \<open>Remove\<close> of the running server when \<open>os.RemoveAll\<close> fails: the call returns \<open>nil\<close>
  and paths of port 8388 are still on disk.
\<close>

theorem C6_Remove_counterexample:
  "returned (Remove ((ok_env 0)\<lparr>rm_err := Some ''permission denied''\<rparr>) example_running 8388)
     = Some None \<and>
   artifacts (final (Remove ((ok_env 0)\<lparr>rm_err := Some ''permission denied''\<rparr>)
                       example_running 8388)) ''/home/ss/.shadowsocks_manager/8388''
     \<noteq> []"
  by (simp add: example_running_eq Remove_def kill_def deleteResidue_def final_def returned_def
      Process_def ok_env_def under_def artifacts_def emit_def)

subsection \<open>Telemetry\<close>

lemma slices:
  assumes "5 \<le> length (elems data)"
  shows "slice_to data 4 = Some (take 4 (elems data))"
    and "slice_from data 5 = Some (drop 5 (elems data))"
  using assms by (simp_all add: slice_to_def slice_from_def)

lemma wf_table_lookup: "wf_table st \<Longrightarrow> map_of (servers st) k = Some a \<Longrightarrow> a < length (heap st)"
  by (auto simp: wf_table_def list_all_iff dest: map_of_SomeD)

lemma emit_frame: "servers (emit e st) = servers st" "heap (emit e st) = heap st"
  by (simp_all add: emit_def)

lemma dropped_emit: "dropped st (emit (Warn w) st)"
  and dropped_emit2: "dropped st (emit (Warn w) (emit e st))"
  by (simp_all add: dropped_def emit_def is_Warn_def)

lemma stat_stored_emit:
  "a < length (heap st) \<Longrightarrow>
   stat_stored a t st
     ((emit e st)\<lparr>heap := (heap (emit e st))[a := (heap (emit e st) ! a)\<lparr>stat := Some \<lparr>Traffic = t\<rparr>\<rparr>]\<rparr>)"
  by (simp add: stat_stored_def emit_def)

lemma sint_int32: "- (2 ^ 31) \<le> n \<Longrightarrow> n < 2 ^ 31 \<Longrightarrow> sint (word_of_int n :: int32) = n"
  by (simp add: sint_sbintrunc' signed_take_bit_int_eq_self)

lemma absent_port:
  assumes "\<forall>(k, a) \<in> set (servers st). sint k \<noteq> n" and "- (2 ^ 31) \<le> n" and "n < 2 ^ 31"
  shows "map_of (servers st) (word_of_int n :: int32) = None"
proof (rule ccontr)
  assume "map_of (servers st) (word_of_int n :: int32) \<noteq> None"
  then obtain a where "(word_of_int n :: int32, a) \<in> set (servers st)"
    by (auto dest: map_of_SomeD)
  with assms(1) have "sint (word_of_int n :: int32) \<noteq> n"
    by auto
  with assms(2,3) show False
    by (simp add: sint_int32)
qed

lemma Atoi_8388: "Atoi ''8388'' = 8388"
  by (simp add: Atoi_def is_digit_def)

lemma TrimSpace_packet: \<open>TrimSpace ''{"8388":1024}'' = ''{"8388":1024}''\<close>
  by (simp add: TrimSpace_def trim_prefixes.simps strip_one_def space_runes_def)

lemma StatRecvHandler_stores:
  assumes "slice_to data 4 = Some ''stat''" and "slice_from data 5 = Some rest"
    and "um (TrimSpace rest) = Inr ((portS, t) # others)"
    and "0 \<le> Atoi portS" and "0 \<le> t"
    and "map_of (servers st) (word_of_int (Atoi portS)) = Some a" and "a < length (heap st)"
  shows "StatRecvHandler um st data =
           Return () (st\<lparr>heap := (heap st)[a := (heap st ! a)\<lparr>stat := Some \<lparr>Traffic = t\<rparr>\<rparr>],
                         logs := logs st @ [Debug (''Stat body is '' @ TrimSpace rest)]\<rparr>)"
  using assms by (simp add: StatRecvHandler_def first_stat_def emit_def Let_def)

lemma StatRecvHandler_drops:
  assumes "slice_to data 4 = Some ''stat''" and "slice_from data 5 = Some rest"
    and "um (TrimSpace rest) = Inr ((portS, t) # others)"
    and "Atoi portS < 0 \<or> t < 0 \<or> map_of (servers st) (word_of_int (Atoi portS) :: int32) = None"
  shows "\<exists>w. StatRecvHandler um st data =
           Return () (st\<lparr>logs := logs st @ [Debug (''Stat body is '' @ TrimSpace rest), Warn w]\<rparr>)"
  using assms by (auto simp: StatRecvHandler_def first_stat_def emit_def Let_def)

lemma unmarshal_examples:
  \<open>unmarshal_flat ''{"8388":1024}'' = Inr [(''8388'', 1024)]\<close>
  \<open>unmarshal_flat ''{"9000":5}'' = Inr [(''9000'', 5)]\<close>
  \<open>unmarshal_flat ''{"8388":5,"8389":7}'' = Inr [(''8388'', 5), (''8389'', 7)]\<close>
  \<open>unmarshal_flat ''{"8389":7,"8388":5}'' = Inr [(''8389'', 7), (''8388'', 5)]\<close>
  by (simp_all add: unmarshal_flat_def take_number_def is_digit_def)

lemma TrimSpace_examples:
  \<open>TrimSpace ''{"9000":5}'' = ''{"9000":5}''\<close>
  \<open>TrimSpace ''{"8388":5,"8389":7}'' = ''{"8388":5,"8389":7}''\<close>
  \<open>TrimSpace ''{"8389":7,"8388":5}'' = ''{"8389":7,"8388":5}''\<close>
  by (simp_all add: TrimSpace_def trim_prefixes.simps strip_one_def space_runes_def)

lemma Atoi_examples: "Atoi ''8389'' = 8389" "Atoi ''9000'' = 9000"
  by (simp_all add: Atoi_def is_digit_def)

lemma wf_examples: "wf_table example_running" "wf_table example_two"
  by (simp_all add: wf_table_def example_running_eq example_two_eq)

text \<open>
  Claim C4, as the code has it. On a packet of at least five bytes, with every table
  pointer valid, \<open>StatRecvHandler\<close> returns, and either drops the packet with a warning
  or stores the stat of exactly one entry. It drops the packet when the tag is not
  \<open>stat\<close>, when decoding fails, when the object is empty, and when the first entry
  visited has a negative value, a negative port or a port that is not in the table.
  An object with more than one key is not dropped: the first entry visited is used as
  if it were alone.
\<close>

theorem C4_StatRecvHandler:
  assumes "5 \<le> length (elems data)" and "wf_table st"
    and "body = TrimSpace (drop 5 (elems data))"
  shows "\<exists>st'. StatRecvHandler um st data = Return () st' \<and>
           (dropped st st' \<or> (\<exists>a t. stat_stored a t st st')) \<and>
           (take 4 (elems data) \<noteq> ''stat'' \<longrightarrow> dropped st st') \<and>
           (\<forall>err. um body = Inl err \<longrightarrow> dropped st st') \<and>
           (um body = Inr [] \<longrightarrow> dropped st st') \<and>
           (\<forall>portS t others. um body = Inr ((portS, t) # others) \<longrightarrow>
              (t < 0 \<or> Atoi portS < 0 \<or>
               map_of (servers st) (word_of_int (Atoi portS)) = None \<longrightarrow> dropped st st') \<and>
              (\<forall>a. take 4 (elems data) = ''stat'' \<and> 0 \<le> t \<and> 0 \<le> Atoi portS \<and>
                    map_of (servers st) (word_of_int (Atoi portS)) = Some a \<longrightarrow>
                    stat_stored a t st st'))"
proof (cases "take 4 (elems data) = ''stat''")
  case False
  then have "StatRecvHandler um st data =
      Return () (emit (Warn (''Unrecognized command '' @ take 4 (elems data) @ '', dropped'')) st)"
    using assms(1) by (simp add: StatRecvHandler_def slices)
  then show ?thesis
    using False by (simp add: dropped_emit)
next
  case tag: True
  let ?st1 = "emit (Debug (''Stat body is '' @ body)) st"
  show ?thesis
  proof (cases "um body")
    case (Inl err)
    then have "StatRecvHandler um st data = Return () (emit (Warn (''Unmarshal error: '' @ err)) ?st1)"
      using assms(1,3) tag by (simp add: StatRecvHandler_def slices)
    then show ?thesis
      using Inl by (simp add: dropped_emit2)
  next
    case (Inr entries)
    show ?thesis
    proof (cases entries)
      case Nil
      then have "StatRecvHandler um st data = Return () (emit (Warn ''Invalid stat!'') ?st1)"
        using assms(1,3) tag Inr by (simp add: StatRecvHandler_def slices first_stat_def)
      then show ?thesis
        using Inr Nil by (simp add: dropped_emit2)
    next
      case (Cons e others)
      obtain portS t where e: "e = (portS, t)"
        by (cases e)
      have um: "um body = Inr ((portS, t) # others)"
        using Inr Cons e by simp
      consider (bad) "Atoi portS < 0 \<or> t < 0"
        | (unknown) "\<not> (Atoi portS < 0 \<or> t < 0)"
            "map_of (servers st) (word_of_int (Atoi portS)) = None"
        | (known) a where "\<not> (Atoi portS < 0 \<or> t < 0)"
            "map_of (servers st) (word_of_int (Atoi portS)) = Some a"
        by (cases "map_of (servers st) (word_of_int (Atoi portS) :: int32)") auto
      then show ?thesis
      proof cases
        case bad
        then have "StatRecvHandler um st data = Return () (emit (Warn ''Invalid stat!'') ?st1)"
          using assms(1,3) tag um by (auto simp: StatRecvHandler_def slices first_stat_def)
        then show ?thesis
          using um bad by (auto simp: dropped_emit2)
      next
        case unknown
        then have "StatRecvHandler um st data =
            Return () (emit (Warn (''Server on port '' @ Sprint (Atoi portS) @ '' not found!'')) ?st1)"
          using assms(1,3) tag um by (simp add: StatRecvHandler_def slices first_stat_def emit_frame Let_def)
        then show ?thesis
          using um unknown by (auto simp: dropped_emit2)
      next
        case known
        then have a: "a < length (heap st)"
          using assms(2) by (simp add: wf_table_lookup)
        then have "StatRecvHandler um st data =
            Return () (?st1\<lparr>heap := (heap ?st1)[a := (heap ?st1 ! a)\<lparr>stat := Some \<lparr>Traffic = t\<rparr>\<rparr>]\<rparr>)"
          using assms(1,3) tag um known
          by (simp add: StatRecvHandler_def slices first_stat_def emit_frame Let_def)
        moreover have "stat_stored a t st
            (?st1\<lparr>heap := (heap ?st1)[a := (heap ?st1 ! a)\<lparr>stat := Some \<lparr>Traffic = t\<rparr>\<rparr>]\<rparr>)"
          using a by (rule stat_stored_emit)
        ultimately show ?thesis
          using um known tag by auto
      qed
    qed
  qed
qed

theorem C4_StatRecvHandler_witness:
  \<open>5 \<le> length (elems \<lparr>elems = ''stat {"8388":1024}'', room = []\<rparr>) \<and>
   wf_table example_running \<and>
   (\<exists>st'. StatRecvHandler unmarshal_flat example_running
             \<lparr>elems = ''stat {"8388":1024}'', room = []\<rparr> = Return () st' \<and>
          stat_stored 0 1024 example_running st') \<and>
   (\<exists>st'. StatRecvHandler unmarshal_flat example_running
             \<lparr>elems = ''ping {"8388":1024}'', room = []\<rparr> = Return () st' \<and>
          dropped example_running st')\<close>
proof -
  have l: \<open>5 \<le> length (elems \<lparr>elems = ''stat {"8388":1024}'', room = []\<rparr>)\<close>
    \<open>5 \<le> length (elems \<lparr>elems = ''ping {"8388":1024}'', room = []\<rparr>)\<close>
    by simp_all
  have b: \<open>''{"8388":1024}'' = TrimSpace (drop 5 (elems \<lparr>elems = ''stat {"8388":1024}'', room = []\<rparr>))\<close>
    \<open>''{"8388":1024}'' = TrimSpace (drop 5 (elems \<lparr>elems = ''ping {"8388":1024}'', room = []\<rparr>))\<close>
    by (simp_all add: TrimSpace_packet)
  have t: "map_of (servers example_running) (word_of_int (Atoi ''8388'')) = Some 0"
    by (simp add: Atoi_8388 example_running_eq)
  show ?thesis
    using C4_StatRecvHandler [OF l(1) wf_examples(1) b(1), of unmarshal_flat]
      C4_StatRecvHandler [OF l(2) wf_examples(1) b(2), of unmarshal_flat]
      wf_examples(1) t
    by (simp add: unmarshal_examples Atoi_8388) blast
qed

text \<open>
  Two packets whose object has two keys, delivered to the supervisor with servers on
  ports 8388 and 8389: neither is dropped. The entry of the key visited first gets
  its value, whichever of the two keys that is.
\<close>

theorem C4_multi_key_counterexample:
  \<open>stat (heap example_two ! 0) = None \<and>
   stat (heap (final (StatRecvHandler unmarshal_flat example_two
                        \<lparr>elems = ''stat {"8388":5,"8389":7}'', room = []\<rparr>)) ! 0)
     = Some \<lparr>Traffic = 5\<rparr> \<and>
   stat (heap example_two ! 1) = None \<and>
   stat (heap (final (StatRecvHandler unmarshal_flat example_two
                        \<lparr>elems = ''stat {"8389":7,"8388":5}'', room = []\<rparr>)) ! 1)
     = Some \<lparr>Traffic = 7\<rparr>\<close>
  by (simp add: example_two_eq StatRecvHandler_def slice_to_def slice_from_def TrimSpace_examples
      unmarshal_examples first_stat_def Atoi_8388 Atoi_examples emit_def final_def
      example_server_def Let_def)

text \<open>
  Claim C8. If decoding \<open>{"8388":1024}\<close> yields the one entry 8388 to 1024 and the table
  holds port 8388, then after the packet \<open>stat {"8388":1024}\<close> \<open>GetServer(8388)\<close> returns
  a snapshot whose traffic is 1024. A packet whose one entry names a port number that
  fits \<open>int32\<close> and that no table entry has leaves every server object and the table
  as they were.
\<close>

theorem C8_stat_update:
  \<open>(um ''{"8388":1024}'' = Inr [(''8388'', 1024)] \<and> elems data = ''stat {"8388":1024}'' \<and>
    map_of (servers st) 8388 = Some a \<and> a < length (heap st) \<longrightarrow>
      (\<exists>st1 c st2. StatRecvHandler um st data = Return () st1 \<and>
         GetServer st1 8388 = Return (Inr c) st2 \<and>
         Traffic (GetStat (heap st2 ! c)) = 1024)) \<and>
   (elems data = ''stat'' @ [delimiter] @ body \<and> um (TrimSpace body) = Inr [(portS, t)] \<and>
    Atoi portS < 2 ^ 31 \<and> (\<forall>(k, a) \<in> set (servers st). sint k \<noteq> Atoi portS) \<longrightarrow>
      (\<exists>st1. StatRecvHandler um st data = Return () st1 \<and>
         heap st1 = heap st \<and> servers st1 = servers st))\<close>
proof (intro conjI impI)
  assume h: \<open>um ''{"8388":1024}'' = Inr [(''8388'', 1024)] \<and> elems data = ''stat {"8388":1024}'' \<and>
    map_of (servers st) 8388 = Some a \<and> a < length (heap st)\<close>
  define st1 where \<open>st1 = st\<lparr>heap := (heap st)[a := (heap st ! a)\<lparr>stat := Some \<lparr>Traffic = 1024\<rparr>\<rparr>],
       logs := logs st @ [Debug (''Stat body is '' @ TrimSpace ''{"8388":1024}'')]\<rparr>\<close>
  define st2 where "st2 = st1\<lparr>heap := heap st1 @ [clone (heap st1 ! a)]\<rparr>"
  have st1: "servers st1 = servers st" "length (heap st1) = length (heap st)"
    "stat (heap st1 ! a) = Some \<lparr>Traffic = 1024\<rparr>"
    using h by (simp_all add: st1_def)
  have sl: \<open>slice_to data 4 = Some ''stat''\<close> \<open>slice_from data 5 = Some ''{"8388":1024}''\<close>
    using h by (simp_all add: slice_to_def slice_from_def)
  have A: "StatRecvHandler um st data = Return () st1"
    unfolding st1_def
    using sl
  proof (rule StatRecvHandler_stores)
    show \<open>um (TrimSpace ''{"8388":1024}'') = Inr [(''8388'', 1024)]\<close>
      using h by (simp add: TrimSpace_packet)
    show "0 \<le> Atoi ''8388''" "(0::int) \<le> 1024"
      by (simp_all add: Atoi_8388)
    show "map_of (servers st) (word_of_int (Atoi ''8388'')) = Some a" "a < length (heap st)"
      using h by (simp_all add: Atoi_8388)
  qed
  have B: "GetServer st1 8388 = Return (Inr (length (heap st1))) st2"
    using h st1 by (simp add: GetServer_def st2_def)
  have "heap st2 ! length (heap st1) = clone (heap st1 ! a)"
    by (simp add: st2_def)
  then have C: "Traffic (GetStat (heap st2 ! length (heap st1))) = 1024"
    using st1(3) by (simp add: clone_def GetStat_def)
  from A B C show "\<exists>st1 c st2. StatRecvHandler um st data = Return () st1 \<and>
         GetServer st1 8388 = Return (Inr c) st2 \<and>
         Traffic (GetStat (heap st2 ! c)) = 1024"
    by blast
next
  assume h: "elems data = ''stat'' @ [delimiter] @ body \<and> um (TrimSpace body) = Inr [(portS, t)] \<and>
    Atoi portS < 2 ^ 31 \<and> (\<forall>(k, a) \<in> set (servers st). sint k \<noteq> Atoi portS)"
  have sl: "slice_to data 4 = Some ''stat''" "slice_from data 5 = Some body"
    using h by (simp_all add: slice_to_def slice_from_def)
  have "Atoi portS < 0 \<or> t < 0 \<or> map_of (servers st) (word_of_int (Atoi portS) :: int32) = None"
  proof (cases "Atoi portS < 0")
    case False
    then have "map_of (servers st) (word_of_int (Atoi portS) :: int32) = None"
      using h by (intro absent_port) auto
    then show ?thesis by simp
  qed simp
  with sl h obtain w where "StatRecvHandler um st data =
      Return () (st\<lparr>logs := logs st @ [Debug (''Stat body is '' @ TrimSpace body), Warn w]\<rparr>)"
    using StatRecvHandler_drops [of data body um portS t "[]" st] by blast
  then show "\<exists>st1. StatRecvHandler um st data = Return () st1 \<and>
         heap st1 = heap st \<and> servers st1 = servers st"
    by simp
qed

theorem C8_stat_update_witness:
  \<open>unmarshal_flat ''{"8388":1024}'' = Inr [(''8388'', 1024)] \<and>
   map_of (servers example_running) 8388 = Some 0 \<and> 0 < length (heap example_running) \<and>
   (\<exists>st1 c st2. StatRecvHandler unmarshal_flat example_running
                   \<lparr>elems = ''stat {"8388":1024}'', room = []\<rparr> = Return () st1 \<and>
      GetServer st1 8388 = Return (Inr c) st2 \<and> Traffic (GetStat (heap st2 ! c)) = 1024) \<and>
   unmarshal_flat (TrimSpace ''{"9000":5}'') = Inr [(''9000'', 5)] \<and>
   Atoi ''9000'' < 2 ^ 31 \<and>
   map (sint \<circ> fst) (servers example_running) = [8388] \<and> Atoi ''9000'' = 9000 \<and>
   (\<exists>st1. StatRecvHandler unmarshal_flat example_running
              \<lparr>elems = ''stat {"9000":5}'', room = []\<rparr> = Return () st1 \<and>
      heap st1 = heap example_running \<and> servers st1 = servers example_running)\<close>
proof -
  have a: "map_of (servers example_running) 8388 = Some 0" "0 < length (heap example_running)"
    by (simp_all add: example_running_eq)
  have b: \<open>unmarshal_flat (TrimSpace ''{"9000":5}'') = Inr [(''9000'', 5)]\<close>
    by (simp add: TrimSpace_examples unmarshal_examples)
  have c: "Atoi ''9000'' < 2 ^ 31" "\<forall>(k, a) \<in> set (servers example_running). sint k \<noteq> Atoi ''9000''"
    by (simp_all add: Atoi_examples example_running_eq)
  have d: \<open>elems \<lparr>elems = ''stat {"9000":5}'', room = []\<rparr> = ''stat'' @ [CHR '' ''] @ ''{"9000":5}''\<close>
    by simp
  show ?thesis
    using C8_stat_update [of unmarshal_flat \<open>\<lparr>elems = ''stat {"8388":1024}'', room = []\<rparr>\<close>
        example_running 0]
      C8_stat_update [of unmarshal_flat \<open>\<lparr>elems = ''stat {"9000":5}'', room = []\<rparr>\<close>
        example_running 0 \<open>CHR '' ''\<close> \<open>''{"9000":5}''\<close> "''9000''" 5]
      a b c d unmarshal_examples(1)
    by (simp add: Atoi_examples example_running_eq)
qed

subsection \<open>Snapshots\<close>

lemma set_update_subset: "set (AList.update k v al) \<subseteq> insert (k, v) (set al)"
  by (induction al) auto

lemma clone_all_fresh:
  "clone_all A acc rest = Return cs A' \<Longrightarrow>
   servers A' = servers A \<and> length (heap A) \<le> length (heap A') \<and>
   (\<forall>(p, c) \<in> set cs. (p, c) \<in> set acc \<or> length (heap A) \<le> c)"
proof (induction rest arbitrary: A acc)
  case Nil
  then show ?case by auto
next
  case (Cons x rest)
  obtain p a where x: "x = (p, a)"
    by (cases x)
  let ?A1 = "A\<lparr>heap := heap A @ [clone (heap A ! a)]\<rparr>"
  let ?acc1 = "AList.update p (length (heap A)) acc"
  from Cons.prems x have a: "a < length (heap A)"
    and run: "clone_all ?A1 ?acc1 rest = Return cs A'"
    by (auto split: if_splits)
  from Cons.IH [OF run] have ih: "servers A' = servers A" "Suc (length (heap A)) \<le> length (heap A')"
    "\<forall>(p, c) \<in> set cs. (p, c) \<in> set ?acc1 \<or> Suc (length (heap A)) \<le> c"
    by auto
  have "(q, c) \<in> set acc \<or> length (heap A) \<le> c" if "(q, c) \<in> set cs" for q c
  proof -
    from ih(3) that have "(q, c) \<in> set ?acc1 \<or> Suc (length (heap A)) \<le> c"
      by auto
    then show ?thesis
      using set_update_subset [of p "length (heap A)" acc] by auto
  qed
  with ih(1,2) show ?case
    by auto
qed

lemma clone_all_snapshots:
  assumes "length (heap A) = length (heap B)"
    and "\<forall>(p, a) \<in> set rest. a < length (heap A) \<longrightarrow> heap A ! a = heap B ! a"
    and "\<forall>(p, c) \<in> set acc. c < length (heap A) \<and> heap A ! c = heap B ! c"
  shows "snapshots_of (clone_all A acc rest) = snapshots_of (clone_all B acc rest)"
  using assms
proof (induction rest arbitrary: A B acc)
  case Nil
  then have "map (\<lambda>(p, c). (p, heap A ! c)) acc = map (\<lambda>(p, c). (p, heap B ! c)) acc"
    by (intro map_cong) auto
  then show ?case
    by (simp add: snapshots_of_def)
next
  case (Cons x rest)
  obtain p a where x: "x = (p, a)"
    by (cases x)
  show ?case
  proof (cases "a < length (heap A)")
    case False
    with Cons.prems(1) x show ?thesis
      by (simp add: snapshots_of_def)
  next
    case True
    let ?A1 = "A\<lparr>heap := heap A @ [clone (heap A ! a)]\<rparr>"
    let ?B1 = "B\<lparr>heap := heap B @ [clone (heap B ! a)]\<rparr>"
    let ?acc1 = "AList.update p (length (heap A)) acc"
    from Cons.prems(2) x True have same: "heap A ! a = heap B ! a"
      by auto
    have 1: "length (heap ?A1) = length (heap ?B1)"
      using Cons.prems(1) by simp
    have 2: "\<forall>(q, b) \<in> set rest. b < length (heap ?A1) \<longrightarrow> heap ?A1 ! b = heap ?B1 ! b"
      using Cons.prems(1,2) same by (auto simp: nth_append)
    have 3: "\<forall>(q, c) \<in> set ?acc1. c < length (heap ?A1) \<and> heap ?A1 ! c = heap ?B1 ! c"
    proof -
      have "c < length (heap ?A1) \<and> heap ?A1 ! c = heap ?B1 ! c" if "(q, c) \<in> set ?acc1" for q c
      proof -
        from that set_update_subset [of p "length (heap A)" acc]
        consider "c = length (heap A)" | "(q, c) \<in> set acc"
          by auto
        then show ?thesis
        proof cases
          case 1
          then show ?thesis
            using Cons.prems(1) same by (simp add: nth_append)
        next
          case 2
          with Cons.prems(3) have "c < length (heap A)" "heap A ! c = heap B ! c"
            by auto
          then show ?thesis
            using Cons.prems(1) by (simp add: nth_append)
        qed
      qed
      then show ?thesis by auto
    qed
    have "snapshots_of (clone_all ?A1 ?acc1 rest) = snapshots_of (clone_all ?B1 ?acc1 rest)"
      using 1 2 3 by (rule Cons.IH)
    then show ?thesis
      using x True Cons.prems(1) by simp
  qed
qed

lemma GetServer_fresh:
  "GetServer st port = Return (Inr c) st1 \<Longrightarrow>
   servers st1 = servers st \<and> length (heap st) \<le> length (heap st1) \<and> length (heap st) \<le> c"
  by (auto simp: GetServer_def split: option.splits if_splits)

lemma mutation_unobservable:
  assumes wf: "wf_table st"
    and st1: "servers st1 = servers st" "length (heap st) \<le> length (heap st1)"
    and c: "length (heap st) \<le> c"
  shows "snapshot_of (GetServer (st1\<lparr>heap := (heap st1)[c := v]\<rparr>) q) = snapshot_of (GetServer st1 q) \<and>
         snapshots_of (ListServers (st1\<lparr>heap := (heap st1)[c := v]\<rparr>)) = snapshots_of (ListServers st1)"
proof
  let ?st2 = "st1\<lparr>heap := (heap st1)[c := v]\<rparr>"
  have table: "a < length (heap st1) \<and> (heap st1)[c := v] ! a = heap st1 ! a"
    if "map_of (servers st) q' = Some a" for q' a
    using wf_table_lookup [OF wf that] st1(2) c by simp
  show "snapshot_of (GetServer ?st2 q) = snapshot_of (GetServer st1 q)"
  proof (cases "map_of (servers st) q")
    case None
    then show ?thesis
      by (simp add: GetServer_def snapshot_of_def st1(1))
  next
    case (Some a)
    with table [OF Some] show ?thesis
      by (simp add: GetServer_def snapshot_of_def st1(1) nth_append)
  qed
  have "snapshots_of (clone_all ?st2 [] (servers st)) = snapshots_of (clone_all st1 [] (servers st))"
  proof (rule clone_all_snapshots)
    show "length (heap ?st2) = length (heap st1)"
      by simp
    show "\<forall>(p, a) \<in> set (servers st). a < length (heap ?st2) \<longrightarrow> heap ?st2 ! a = heap st1 ! a"
    proof -
      have "heap ?st2 ! a = heap st1 ! a" if "(p, a) \<in> set (servers st)" for p a
      proof -
        from wf that have "a < length (heap st)"
          by (auto simp: wf_table_def list_all_iff)
        with c show ?thesis by simp
      qed
      then show ?thesis by auto
    qed
    show "\<forall>(p, c') \<in> set []. c' < length (heap ?st2) \<and> heap ?st2 ! c' = heap st1 ! c'"
      by simp
  qed
  then show "snapshots_of (ListServers ?st2) = snapshots_of (ListServers st1)"
    by (simp add: ListServers_def st1(1))
qed

text \<open>
  Claim C7. Let \<open>c\<close> be a clone that \<open>GetServer\<close> or \<open>ListServers\<close> returned. Replacing
  the object at \<open>c\<close> by any \<open>Server\<close> value \<open>v\<close>, which covers every assignment to its
  fields, changes nothing in what a following \<open>GetServer\<close> of any port or a following
  \<open>ListServers\<close> lets the caller read.
\<close>

theorem C7_snapshot_isolation:
  assumes "wf_table st"
    and "GetServer st port = Return (Inr c) st1 \<or>
         (\<exists>cs. ListServers st = Return cs st1 \<and> c \<in> snd ` set cs)"
  shows "snapshot_of (GetServer (st1\<lparr>heap := (heap st1)[c := v]\<rparr>) q) = snapshot_of (GetServer st1 q) \<and>
         snapshots_of (ListServers (st1\<lparr>heap := (heap st1)[c := v]\<rparr>)) = snapshots_of (ListServers st1)"
proof -
  have "servers st1 = servers st \<and> length (heap st) \<le> length (heap st1) \<and> length (heap st) \<le> c"
    using assms(2)
  proof
    assume "GetServer st port = Return (Inr c) st1"
    then show ?thesis
      by (rule GetServer_fresh)
  next
    assume "\<exists>cs. ListServers st = Return cs st1 \<and> c \<in> snd ` set cs"
    then obtain cs p where "clone_all st [] (servers st) = Return cs st1" "(p, c) \<in> set cs"
      by (auto simp: ListServers_def)
    with clone_all_fresh [of st "[]" "servers st" cs st1] show ?thesis
      by auto
  qed
  with assms(1) show ?thesis
    by (intro mutation_unobservable) auto
qed

theorem C7_snapshot_isolation_witness:
  "wf_table example_running \<and>
   GetServer example_running 8388 = Return (Inr 1) (final (GetServer example_running 8388)) \<and>
   snapshot_of (GetServer ((final (GetServer example_running 8388))
        \<lparr>heap := (heap (final (GetServer example_running 8388)))[1 := example_server]\<rparr>) 8388)
     = snapshot_of (GetServer (final (GetServer example_running 8388)) 8388) \<and>
   snapshots_of (ListServers ((final (GetServer example_running 8388))
        \<lparr>heap := (heap (final (GetServer example_running 8388)))[1 := example_server]\<rparr>))
     = snapshots_of (ListServers (final (GetServer example_running 8388)))"
proof -
  have g: "GetServer example_running 8388 = Return (Inr 1) (final (GetServer example_running 8388))"
    by (simp add: example_running_eq GetServer_def final_def)
  show ?thesis
    using C7_snapshot_isolation [OF wf_examples(1) disjI1 [OF g], of example_server 8388]
      wf_examples(1) g
    by simp
qed

subsection \<open>The table holds valid pointers\<close>

text \<open>
  \<open>wf_table\<close> holds of a new manager and is kept by \<open>Add\<close> and \<open>Remove\<close>; the other
  operations do not touch the table or shorten the heap.
\<close>

lemma prepareExec_frame:
  "prepareExec env st a = (r, st') \<Longrightarrow>
   servers st' = servers st \<and> length (heap st') = length (heap st)"
  by (auto simp: prepareExec_def Let_def split: option.splits)

lemma SavePidFile_frame:
  "SavePidFile env st a = (r, st') \<Longrightarrow>
   servers st' = servers st \<and> length (heap st') = length (heap st)"
  by (auto simp: SavePidFile_def Let_def split: option.splits if_splits)

lemma exec_frame:
  "exec env st a = (r, st') \<Longrightarrow>
   servers st' = servers st \<and> length (heap st') = length (heap st)"
  by (auto simp: exec_def Let_def emit_def split: option.splits prod.splits sum.splits
      dest!: prepareExec_frame SavePidFile_frame)

lemma wf_table_NewManager: "wf_table (NewManager port home)"
  by (simp add: wf_table_def NewManager_def)

lemma wf_table_update:
  "wf_table st \<Longrightarrow> a < length (heap st) \<Longrightarrow>
   wf_table (st\<lparr>servers := AList.update k a (servers st)\<rparr>)"
  using set_update_subset [of k a "servers st"]
  by (auto simp: wf_table_def list_all_iff)

lemma wf_table_Add:
  assumes "wf_table st" and "Add env st a = Return r st'"
  shows "wf_table st'"
proof (cases "exec env st a")
  case (Pair e st1)
  from exec_frame [OF Pair] have f: "servers st1 = servers st" "length (heap st1) = length (heap st)"
    by auto
  with assms(1) have wf1: "wf_table st1"
    by (simp add: wf_table_def)
  from assms(2) Pair consider "st' = st" | "st' = st1"
    | "a < length (heap st)" "st' = st1\<lparr>servers := AList.update (Port (heap st1 ! a)) a (servers st1)\<rparr>"
    by (auto simp: Add_def Let_def split: if_splits option.splits)
  then show ?thesis
  proof cases
    case 3
    with wf1 f(2) show ?thesis
      by (simp add: wf_table_update)
  qed (use assms(1) wf1 in simp_all)
qed

lemma wf_table_Remove: "wf_table st \<Longrightarrow> wf_table (final (Remove env st port))"
  by (auto simp: Remove_def kill_def deleteResidue_def emit_def final_def wf_table_def
      list_all_iff Let_def AList.delete_eq split: option.splits outcome.splits)

subsection \<open>The monitor\<close>

text \<open>
  Claim C1. The one process of the supervisor has died. One pass of the monitor in
  which every system call succeeds starts process 101, and records it in the clone
  that \<open>ListServers\<close> returned: the table entry of port 8388 still exists and its
  recorded process is still the dead process 100.
\<close>

theorem C1_restart_not_recorded:
  "returned (ServerMonitor_pass (\<lambda>_. ok_env 101) example_crashed) = Some () \<and>
   map_of (servers (final (ServerMonitor_pass (\<lambda>_. ok_env 101) example_crashed))) 8388 = Some 0 \<and>
   Process (final (ServerMonitor_pass (\<lambda>_. ok_env 101) example_crashed))
     (heap (final (ServerMonitor_pass (\<lambda>_. ok_env 101) example_crashed)) ! 0) = Some 100 \<and>
   alive (final (ServerMonitor_pass (\<lambda>_. ok_env 101) example_crashed)) = [101] \<and>
   \<not> Alive (final (ServerMonitor_pass (\<lambda>_. ok_env 101) example_crashed))
       (heap (final (ServerMonitor_pass (\<lambda>_. ok_env 101) example_crashed)) ! 0)"
  by (simp add: monitor_crashed returned_def final_def Alive_def Process_def process_Alive_def)

end
